theory Spec2Isabelle
  imports Complex_Main "HOL-Library.Log_Nat"
begin

section \<open>JavaScript values\<close>

text \<open>
  A JavaScript number is an IEEE 754 double: \<open>NaN\<close>, one of the two infinities, or a
  finite value, kept here as the rational it denotes. The two zeros are one value,
  \<open>Fin 0\<close>: nothing the program does tells them apart.
\<close>

datatype number = NaN | NegInf | PosInf | Fin rat

text \<open>
  Rounding a rational to the nearest double, ties to the even significand. A positive
  \<open>r\<close> with \<open>2 ^ e \<le> r < 2 ^ (e + 1)\<close> is rounded to a multiple of \<open>2 ^ (e - 52)\<close>,
  or of \<open>2 ^ (- 1074)\<close> below the normal range; a result of \<open>2 ^ 1024\<close> or more is
  infinite.
\<close>

definition pow2 :: "int \<Rightarrow> rat" where
  "pow2 k = (if 0 \<le> k then 2 ^ nat k else 1 / 2 ^ nat (- k))"

text \<open>The exponent \<open>e\<close> of a positive rational: \<open>2 ^ e \<le> r < 2 ^ (e + 1)\<close>.\<close>

definition exponent :: "rat \<Rightarrow> int" where
  "exponent r = (if 1 \<le> r then bitlen \<lfloor>r\<rfloor> - 1 else - bitlen (\<lceil>1 / r\<rceil> - 1))"

definition roundHalfEven :: "rat \<Rightarrow> int" where
  "roundHalfEven x =
     (let f = \<lfloor>x\<rfloor>; d = x - of_int f
      in if d < 1 / 2 then f else if 1 / 2 < d then f + 1 else if even f then f else f + 1)"

definition roundPos :: "rat \<Rightarrow> rat" where
  "roundPos r =
     (let k = max (exponent r) (- 1022) - 52
      in of_int (roundHalfEven (r / pow2 k)) * pow2 k)"

definition roundDouble :: "rat \<Rightarrow> number" where
  "roundDouble r =
     (if r = 0 then Fin 0
      else if 0 < r then (if 2 ^ 1024 \<le> roundPos r then PosInf else Fin (roundPos r))
      else (if 2 ^ 1024 \<le> roundPos (- r) then NegInf else Fin (- roundPos (- r))))"

text \<open>
  The addition of two numbers: \<open>NaN\<close> absorbs, opposite infinities add up to \<open>NaN\<close>,
  and the sum of two finite values is the exact sum rounded.
\<close>

fun add :: "number \<Rightarrow> number \<Rightarrow> number" where
  "add NaN y = NaN"
| "add x NaN = NaN"
| "add PosInf NegInf = NaN"
| "add NegInf PosInf = NaN"
| "add PosInf y = PosInf"
| "add x PosInf = PosInf"
| "add NegInf y = NegInf"
| "add x NegInf = NegInf"
| "add (Fin a) (Fin b) = roundDouble (a + b)"

text \<open>\<^verbatim>\<open>x || 0\<close> on a number: \<open>NaN\<close> and zero are falsy.\<close>

definition orZero :: "number \<Rightarrow> number" where
  "orZero x = (if x = NaN \<or> x = Fin 0 then Fin 0 else x)"

definition nonneg :: "number \<Rightarrow> bool" where
  "nonneg x = (case x of Fin r \<Rightarrow> 0 \<le> r | PosInf \<Rightarrow> True | _ \<Rightarrow> False)"

text \<open>\<^verbatim>\<open>!s\<close> on an optional string: absent and empty are falsy.\<close>

definition falsy :: "string option \<Rightarrow> bool" where
  "falsy s = (s = None \<or> s = Some [])"

text \<open>
  The result of \<^verbatim>\<open>JSON.parse\<close>. \<open>JNum r\<close> is the number written by a literal of value
  \<open>r\<close>, that is, the double nearest to \<open>r\<close>. An object is the list of its own
  properties; the value of a property is the one \<open>map_of\<close> finds.
\<close>

datatype json =
    JNull
  | JBool bool
  | JNum rat
  | JStr string
  | JArr "json list"
  | JObj "(string \<times> json) list"

text \<open>
  Reading one of the properties the program reads (\<^verbatim>\<open>items\<close>, \<^verbatim>\<open>mealTitle\<close>,
  \<^verbatim>\<open>notes\<close>, \<^verbatim>\<open>confidence\<close>, \<^verbatim>\<open>kcal\<close>, \<^verbatim>\<open>protein\<close>, \<^verbatim>\<open>carbs\<close>,
  \<^verbatim>\<open>fat\<close>), none of which a prototype defines. The outer \<open>None\<close> is the TypeError of
  reading a property of \<^verbatim>\<open>null\<close>; \<open>Some None\<close> is \<^verbatim>\<open>undefined\<close>.
\<close>

fun getProp :: "json \<Rightarrow> string \<Rightarrow> json option option" where
  "getProp JNull k = None"
| "getProp (JObj kvs) k = Some (map_of kvs k)"
| "getProp v k = Some None"

text \<open>
  The built-ins of the language that the program calls and that are not modelled further:
  the conversion of a string to a number, the printing of a number, and
  \<^verbatim>\<open>JSON.parse\<close> (\<open>None\<close> when it throws).
\<close>

record builtins =
  stringToNumber :: "string \<Rightarrow> number"
  numberToString :: "number \<Rightarrow> string"
  jsonParse :: "string \<Rightarrow> json option"

text \<open>\<^verbatim>\<open>Array.prototype.join\<close> on strings.\<close>

fun join :: "string \<Rightarrow> string list \<Rightarrow> string" where
  "join sep [] = []"
| "join sep [s] = s"
| "join sep (s # t # ss) = s @ sep @ join sep (t # ss)"

fun sequence :: "'a option list \<Rightarrow> 'a list option" where
  "sequence [] = Some []"
| "sequence (None # xs) = None"
| "sequence (Some x # xs) = map_option ((#) x) (sequence xs)"

text \<open>
  \<^verbatim>\<open>ToString\<close> of a parsed value. An array prints its elements joined by commas, with
  \<^verbatim>\<open>null\<close> elements printed as the empty string. An object prints through the inherited
  \<^verbatim>\<open>toString\<close>, unless an own property of that name (never callable in parsed JSON)
  hides it: then the conversion throws (\<open>None\<close>).
\<close>

fun toStringJ :: "(number \<Rightarrow> string) \<Rightarrow> json \<Rightarrow> string option" where
  "toStringJ ns JNull = Some ''null''"
| "toStringJ ns (JBool b) = Some (if b then ''true'' else ''false'')"
| "toStringJ ns (JNum r) = Some (ns (roundDouble r))"
| "toStringJ ns (JStr s) = Some s"
| "toStringJ ns (JArr xs) =
     map_option (join '','')
       (sequence (map (\<lambda>x. if x = JNull then Some [] else toStringJ ns x) xs))"
| "toStringJ ns (JObj kvs) =
     (if map_of kvs ''toString'' \<noteq> None then None else Some ''[object Object]'')"

text \<open>
  \<^verbatim>\<open>Number(v)\<close>, where \<open>None\<close> as argument is \<^verbatim>\<open>undefined\<close> and \<open>None\<close> as result
  is a thrown TypeError.
\<close>

fun Number :: "'a builtins_scheme \<Rightarrow> json option \<Rightarrow> number option" where
  "Number B None = Some NaN"
| "Number B (Some JNull) = Some (Fin 0)"
| "Number B (Some (JBool b)) = Some (Fin (if b then 1 else 0))"
| "Number B (Some (JNum r)) = Some (roundDouble r)"
| "Number B (Some (JStr s)) = Some (stringToNumber B s)"
| "Number B (Some v) = map_option (stringToNumber B) (toStringJ (numberToString B) v)"

section \<open>The data model\<close>

text \<open>
  The type \<^verbatim>\<open>MacroBreakdown\<close>. Where the program computes a breakdown, its fields are
  numbers. Where a breakdown arrives as the \<^verbatim>\<open>total\<close> of a response, nothing checks
  it, and each field is what the JSON held: absent, \<^verbatim>\<open>null\<close> (which is how the gateway's
  response carries a \<open>NaN\<close> or infinite field), or a number.
\<close>

record 'n MacroBreakdown =
  kcal :: 'n
  protein :: 'n
  carbs :: 'n
  fat :: 'n

datatype field = Missing | Null | Num number

text \<open>The number a field counts as in an addition.\<close>

fun fieldNumber :: "field \<Rightarrow> number" where
  "fieldNumber Missing = NaN"
| "fieldNumber Null = Fin 0"
| "fieldNumber (Num x) = x"

text \<open>A computed breakdown where a received one is expected: the same object.\<close>

definition asFields :: "number MacroBreakdown \<Rightarrow> field MacroBreakdown" where
  "asFields m =
     \<lparr>kcal = Num (kcal m), protein = Num (protein m), carbs = Num (carbs m),
      fat = Num (fat m)\<rparr>"

definition zeroMacros :: "number MacroBreakdown" where
  "zeroMacros = \<lparr>kcal = Fin 0, protein = Fin 0, carbs = Fin 0, fat = Fin 0\<rparr>"

section \<open>The gateway: route.ts\<close>

record AnalyzePayload =
  p_message :: "string option"
  p_imageBase64 :: "string option"
  p_mealLabel :: "string option"

record upstream_request =
  u_text :: string
  u_image :: "string option"

text \<open>What the handler does to the outside, in order.\<close>

datatype gw_event = ReadBody | CallUpstream upstream_request

text \<open>
  The payload at its declared type \<^verbatim>\<open>AnalyzePayload\<close> (an absent or \<^verbatim>\<open>null\<close>
  property is \<open>None\<close>), and the surroundings of one request: the credential, what \<^verbatim>\<open>req.json()\<close> gives (\<open>None\<close>
  when it rejects), and the estimation service, which either fails (\<open>None\<close>) or answers
  with the content of its first choice (\<open>Some None\<close> when that content is \<^verbatim>\<open>null\<close>).
\<close>

record gateway_env = builtins +
  OPENAI_API_KEY :: "string option"
  reqJson :: "AnalyzePayload option"
  complete :: "upstream_request \<Rightarrow> string option option"

record estimate =
  e_mealTitle :: json
  e_items :: "json list"
  e_notes :: "json option"
  e_confidence :: "number option"
  e_total :: "number MacroBreakdown"
  e_raw :: string

datatype response = ErrorResponse nat string | Success estimate

text \<open>\<^verbatim>\<open>Array.isArray(parsed.items) ? parsed.items : []\<close>\<close>

definition itemsOf :: "json \<Rightarrow> json list option" where
  "itemsOf parsed =
     (case getProp parsed ''items'' of
        None \<Rightarrow> None
      | Some (Some (JArr xs)) \<Rightarrow> Some xs
      | Some _ \<Rightarrow> Some [])"

text \<open>\<^verbatim>\<open>Number(item.f) || 0\<close> for one field of one item.\<close>

definition coerce :: "'a builtins_scheme \<Rightarrow> json \<Rightarrow> string \<Rightarrow> number option" where
  "coerce B item f = map_option orZero (Option.bind (getProp item f) (Number B))"

text \<open>The callback of the \<^verbatim>\<open>reduce\<close>.\<close>

definition addItem ::
  "'a builtins_scheme \<Rightarrow> number MacroBreakdown \<Rightarrow> json \<Rightarrow> number MacroBreakdown option" where
  "addItem B acc item =
     Option.bind (coerce B item ''kcal'') (\<lambda>k.
     Option.bind (coerce B item ''protein'') (\<lambda>p.
     Option.bind (coerce B item ''carbs'') (\<lambda>c.
     Option.bind (coerce B item ''fat'') (\<lambda>f.
       Some \<lparr>kcal = add (kcal acc) k, protein = add (protein acc) p,
             carbs = add (carbs acc) c, fat = add (fat acc) f\<rparr>))))"

fun reduceItems ::
  "'a builtins_scheme \<Rightarrow> number MacroBreakdown \<Rightarrow> json list \<Rightarrow> number MacroBreakdown option" where
  "reduceItems B acc [] = Some acc"
| "reduceItems B acc (item # rest) =
     (case addItem B acc item of
        None \<Rightarrow> None
      | Some acc' \<Rightarrow> reduceItems B acc' rest)"

text \<open>Lines 97 to 118: from the parsed answer to the body of the response.\<close>

definition buildEstimate :: "'a builtins_scheme \<Rightarrow> string option \<Rightarrow> string \<Rightarrow> json \<Rightarrow> estimate option" where
  "buildEstimate B mealLabel raw parsed =
     Option.bind (itemsOf parsed) (\<lambda>items.
     Option.bind (reduceItems B zeroMacros items) (\<lambda>total.
       Some \<lparr>e_mealTitle =
               (case getProp parsed ''mealTitle'' of
                  Some (Some v) \<Rightarrow>
                    (if v = JNull
                     then JStr (case mealLabel of None \<Rightarrow> ''Meal'' | Some l \<Rightarrow> l)
                     else v)
                | _ \<Rightarrow> JStr (case mealLabel of None \<Rightarrow> ''Meal'' | Some l \<Rightarrow> l)),
             e_items = items,
             e_notes = (case getProp parsed ''notes'' of Some n \<Rightarrow> n | None \<Rightarrow> None),
             e_confidence =
               (case getProp parsed ''confidence'' of
                  Some (Some (JNum r)) \<Rightarrow> Some (roundDouble r)
                | _ \<Rightarrow> None),
             e_total = total,
             e_raw = raw\<rparr>))"

text \<open>The body of the outer \<^verbatim>\<open>try\<close>; \<open>None\<close> is any exception, which the \<^verbatim>\<open>catch\<close>
  turns into one and the same response.\<close>

definition userContent :: "AnalyzePayload \<Rightarrow> upstream_request" where
  "userContent payload =
     \<lparr>u_text = ''Meal label: '' @ (case p_mealLabel payload of None \<Rightarrow> ''Meal'' | Some l \<Rightarrow> l)
               @ [CHR 0x0A] @ ''User description: ''
               @ (case p_message payload of
                    None \<Rightarrow> ''None''
                  | Some m \<Rightarrow> if m = [] then ''None'' else m),
      u_image = (if falsy (p_imageBase64 payload) then None else p_imageBase64 payload)\<rparr>"

definition tryAnalyze :: "'a gateway_env_scheme \<Rightarrow> AnalyzePayload \<Rightarrow> estimate option" where
  "tryAnalyze env payload =
     (case complete env (userContent payload) of
        None \<Rightarrow> None
      | Some None \<Rightarrow> None
      | Some (Some raw) \<Rightarrow>
          if raw = [] then None
          else (case jsonParse env raw of
                  None \<Rightarrow> None
                | Some parsed \<Rightarrow> buildEstimate env (p_mealLabel payload) raw parsed))"

definition POST :: "'a gateway_env_scheme \<Rightarrow> response \<times> gw_event list" where
  "POST env =
     (if falsy (OPENAI_API_KEY env)
      then (ErrorResponse 500 ''OPENAI_API_KEY is not configured.'', [])
      else (case reqJson env of
              None \<Rightarrow> (ErrorResponse 400 ''Invalid JSON payload.'', [ReadBody])
            | Some payload \<Rightarrow>
                if falsy (p_message payload) \<and> falsy (p_imageBase64 payload)
                then (ErrorResponse 400 ''Provide an image or a description to analyze.'',
                      [ReadBody])
                else (case tryAnalyze env payload of
                        None \<Rightarrow> ErrorResponse 500 ''Unable to analyze meal right now.''
                      | Some e \<Rightarrow> Success e,
                      [ReadBody, CallUpstream (userContent payload)])))"

section \<open>The client: the page component\<close>

record MealItem = "number MacroBreakdown" +
  name :: string
  quantity :: string

record MealEntry =
  id' :: string
  title :: string
  time :: string
  macros :: "field MacroBreakdown"
  items :: "MealItem list"
  image :: "string option"
  notes' :: "string option"
  confidence :: "number option"

text \<open>
  The body of a successful response. The title, the items, the notes and the confidence
  are taken at the type the client declares for them in \<^verbatim>\<open>AnalyzeResponse\<close>. The code
  reads \<^verbatim>\<open>items\<close> and \<^verbatim>\<open>total\<close> through \<^verbatim>\<open>??\<close>, so both may be absent or
  \<^verbatim>\<open>null\<close> (\<open>None\<close>). A total that is present is an object whose four fields are as
  the JSON has them.
\<close>

record AnalyzeResponse =
  r_mealTitle :: string
  r_items :: "MealItem list option"
  r_notes :: "string option"
  r_confidence :: "number option"
  r_total :: "field MacroBreakdown option"

definition initialAssistantMessage :: string where
  "initialAssistantMessage =
     ''Upload a photo or tell me what you ate. I will estimate calories and macros with OpenAI and add it to your day.''"

datatype role = Assistant | User

record client_state =
  selectedDate :: string
  historyByDate :: "string \<rightharpoonup> MealEntry list"
  chat :: "(role \<times> string) list"
  message :: string
  imagePreview :: "string option"
  isSending :: bool
  error :: "string option"

text \<open>A thrown value is an \<^verbatim>\<open>Error\<close> with its message, or something else.\<close>

datatype thrown = Error string | NonError

record fetch_request =
  q_message :: string
  q_imageBase64 :: "string option"
  q_mealLabel :: string

text \<open>
  What \<^verbatim>\<open>fetch\<close> gives: a rejection; a response that is not \<^verbatim>\<open>ok\<close>, with the
  \<^verbatim>\<open>error\<close> property of its body (absent also when the body is not JSON); or a response
  that is \<^verbatim>\<open>ok\<close>, whose \<^verbatim>\<open>json()\<close> rejects or gives the body.
\<close>

datatype fetch_result =
    Rejected thrown
  | NotOk "string option"
  | Ok "thrown + AnalyzeResponse"

text \<open>
  The surroundings of one submission: the hour of the clock when the request is built
  and when the answer is read, the identifier and the time of day given to the entry, the
  network, and the two number formats of the summary (\<^verbatim>\<open>Math.round\<close> printed, and
  \<^verbatim>\<open>(c * 100).toFixed(0)\<close>).
\<close>

record client_env =
  hourSent :: nat
  hourReceived :: nat
  randomUUID :: string
  localeTime :: string
  fetch :: "fetch_request \<Rightarrow> fetch_result"
  roundStr :: "field \<Rightarrow> string"
  percentStr :: "number \<Rightarrow> string"

definition todaysEntries :: "client_state \<Rightarrow> MealEntry list" where
  "todaysEntries s = (case historyByDate s (selectedDate s) of None \<Rightarrow> [] | Some es \<Rightarrow> es)"

definition addMacros :: "number MacroBreakdown \<Rightarrow> MealEntry \<Rightarrow> number MacroBreakdown" where
  "addMacros acc entry =
     \<lparr>kcal = add (kcal acc) (fieldNumber (kcal (macros entry))),
      protein = add (protein acc) (fieldNumber (protein (macros entry))),
      carbs = add (carbs acc) (fieldNumber (carbs (macros entry))),
      fat = add (fat acc) (fieldNumber (fat (macros entry)))\<rparr>"

definition totals :: "client_state \<Rightarrow> number MacroBreakdown" where
  "totals s = foldl addMacros zeroMacros (todaysEntries s)"

definition guessMealLabel :: "nat \<Rightarrow> string" where
  "guessMealLabel hour =
     (if hour < 11 then ''Breakfast''
      else if hour < 15 then ''Lunch''
      else if hour < 18 then ''Snack''
      else ''Dinner'')"

definition addMealItem :: "number MacroBreakdown \<Rightarrow> MealItem \<Rightarrow> number MacroBreakdown" where
  "addMealItem acc item =
     \<lparr>kcal = add (kcal acc) (orZero (kcal item)),
      protein = add (protein acc) (orZero (protein item)),
      carbs = add (carbs acc) (orZero (carbs item)),
      fat = add (fat acc) (orZero (fat item))\<rparr>"

definition computeTotals :: "MealItem list \<Rightarrow> number MacroBreakdown" where
  "computeTotals its = foldl addMealItem zeroMacros its"

definition renderAssistantSummary :: "'a client_env_scheme \<Rightarrow> MealEntry \<Rightarrow> string" where
  "renderAssistantSummary env entry =
     (let macroLine =
            roundStr env (kcal (macros entry)) @ '' kcal '' @ [CHR 0xE2, CHR 0x80, CHR 0x94]
            @ '' P'' @ roundStr env (protein (macros entry))
            @ ''g C'' @ roundStr env (carbs (macros entry))
            @ ''g F'' @ roundStr env (fat (macros entry)) @ ''g'';
          foods =
            (if 0 < length (items entry)
             then join '', '' (map (\<lambda>i. name i @ '' ('' @ quantity i @ '')'') (items entry))
             else title entry);
          conf =
            (case confidence entry of
               Some c \<Rightarrow> ''Confidence: '' @ percentStr env c @ ''%''
             | None \<Rightarrow> ''Confidence: n/a'')
      in title entry @ '': '' @ foods @ [CHR 0x0A] @ macroLine @ [CHR 0x0A] @ conf)"

text \<open>The message the \<^verbatim>\<open>catch\<close> block shows for a thrown value.\<close>

fun caughtMessage :: "thrown \<Rightarrow> string" where
  "caughtMessage (Error m) = m"
| "caughtMessage NonError = ''Something went wrong with OpenAI.''"

definition request :: "'a client_env_scheme \<Rightarrow> client_state \<Rightarrow> fetch_request" where
  "request env s =
     \<lparr>q_message = message s, q_imageBase64 = imagePreview s,
      q_mealLabel = guessMealLabel (hourSent env)\<rparr>"

text \<open>Lines 113 to 124: the entry built from the body of a successful response.\<close>

definition makeEntry :: "'a client_env_scheme \<Rightarrow> client_state \<Rightarrow> AnalyzeResponse \<Rightarrow> MealEntry" where
  "makeEntry env s data =
     \<lparr>id' = randomUUID env,
      title = (if r_mealTitle data = [] then guessMealLabel (hourReceived env)
               else r_mealTitle data),
      time = localeTime env,
      macros =
        (case r_total data of
           Some t \<Rightarrow> t
         | None \<Rightarrow>
             asFields (computeTotals (case r_items data of None \<Rightarrow> [] | Some its \<Rightarrow> its))),
      items = (case r_items data of None \<Rightarrow> [] | Some its \<Rightarrow> its),
      image = imagePreview s,
      notes' = r_notes data,
      confidence = r_confidence data\<rparr>"

text \<open>
  The \<^verbatim>\<open>try\<close> block up to the entry: \<open>Inl\<close> carries the message of what was thrown,
  as the \<^verbatim>\<open>catch\<close> block shows it.
\<close>

definition attempt :: "'a client_env_scheme \<Rightarrow> client_state \<Rightarrow> string + MealEntry" where
  "attempt env s =
     (case fetch env (request env s) of
        Rejected t \<Rightarrow> Inl (caughtMessage t)
      | NotOk e \<Rightarrow>
          Inl (case e of
                 None \<Rightarrow> ''AI analysis failed''
               | Some m \<Rightarrow> if m = [] then ''AI analysis failed'' else m)
      | Ok (Inl t) \<Rightarrow> Inl (caughtMessage t)
      | Ok (Inr data) \<Rightarrow> Inr (makeEntry env s data))"

text \<open>The state while the request is in flight (lines 93 to 95).\<close>

definition pending :: "client_state \<Rightarrow> client_state" where
  "pending s =
     s\<lparr>error := None, isSending := True,
       chat := chat s @ [(User, if message s = [] then ''(photo only)'' else message s)]\<rparr>"

text \<open>
  \<^verbatim>\<open>handleSubmit\<close>: the state it leaves and the requests it sent. The selected date
  and the draft are the ones of the call.
\<close>

definition handleSubmit ::
  "'a client_env_scheme \<Rightarrow> client_state \<Rightarrow> client_state \<times> fetch_request list" where
  "handleSubmit env s =
     (if message s = [] \<and> falsy (imagePreview s)
      then (s\<lparr>error := Some ''Add a photo or describe your meal first.''\<rparr>, [])
      else
        (let s1 = pending s;
             s2 =
               (case attempt env s of
                  Inr entry \<Rightarrow>
                    s1\<lparr>historyByDate :=
                         (historyByDate s1)(selectedDate s \<mapsto>
                            (case historyByDate s1 (selectedDate s) of
                               None \<Rightarrow> []
                             | Some es \<Rightarrow> es) @ [entry]),
                       chat := chat s1 @ [(Assistant, renderAssistantSummary env entry)]\<rparr>
                | Inl msg \<Rightarrow>
                    s1\<lparr>error := Some msg, chat := chat s1 @ [(Assistant, msg)]\<rparr>)
         in (s2\<lparr>isSending := False, message := [], imagePreview := None\<rparr>,
             [request env s])))"

section \<open>The specification's notions\<close>

text \<open>
  The definitions of this section follow the words of the specification, not the code:
  they are what the code is compared with. The sum of a sequence of numbers, added up
  from 0 in the order of the sequence:
\<close>

definition sumOver :: "number list \<Rightarrow> number" where
  "sumOver xs = foldl add (Fin 0) xs"

text \<open>
  The value of a macro field of an item as the specification counts it: the number the
  field coerces to, and 0 when the field is missing or does not coerce to a number.
\<close>

definition asNumber :: "'a builtins_scheme \<Rightarrow> json \<Rightarrow> string \<Rightarrow> number" where
  "asNumber B item f =
     (case Option.bind (getProp item f) (Number B) of
        Some x \<Rightarrow> if x = NaN then Fin 0 else x
      | None \<Rightarrow> Fin 0)"

definition macroFields :: "string list" where
  "macroFields = [''kcal'', ''protein'', ''carbs'', ''fat'']"

text \<open>The element-wise sum over the items of an upstream answer.\<close>

definition elementwiseSum :: "'a builtins_scheme \<Rightarrow> json list \<Rightarrow> number MacroBreakdown" where
  "elementwiseSum B its =
     \<lparr>kcal = sumOver (map (\<lambda>i. asNumber B i ''kcal'') its),
      protein = sumOver (map (\<lambda>i. asNumber B i ''protein'') its),
      carbs = sumOver (map (\<lambda>i. asNumber B i ''carbs'') its),
      fat = sumOver (map (\<lambda>i. asNumber B i ''fat'') its)\<rparr>"

text \<open>A breakdown with four non-negative fields.\<close>

definition nonnegMacros :: "number MacroBreakdown \<Rightarrow> bool" where
  "nonnegMacros m = (nonneg (kcal m) \<and> nonneg (protein m) \<and> nonneg (carbs m) \<and> nonneg (fat m))"

text \<open>An item all of whose macro fields are present and numeric.\<close>

definition hasNumericMacros :: "json \<Rightarrow> bool" where
  "hasNumericMacros item =
     list_all (\<lambda>f. case getProp item f of Some (Some (JNum r)) \<Rightarrow> True | _ \<Rightarrow> False)
       macroFields"

text \<open>
  A value whose conversion to a number does not throw: it holds no object with an own
  \<^verbatim>\<open>toString\<close> property, itself or as an element of an array at any depth.
\<close>

fun converts :: "json \<Rightarrow> bool" where
  "converts (JArr xs) = (\<forall>x\<in>set xs. converts x)"
| "converts (JObj kvs) = (map_of kvs ''toString'' = None)"
| "converts v = True"

text \<open>
  An item that can be summed: it is not \<^verbatim>\<open>null\<close>, and each macro field it has
  converts.
\<close>

definition summable :: "json \<Rightarrow> bool" where
  "summable item =
     (item \<noteq> JNull \<and>
      list_all (\<lambda>f. case getProp item f of Some (Some v) \<Rightarrow> converts v | _ \<Rightarrow> True)
        macroFields)"

text \<open>The numbers the fields of a stored breakdown count as when they are added.\<close>

definition numbers :: "field MacroBreakdown \<Rightarrow> number MacroBreakdown" where
  "numbers m =
     \<lparr>kcal = fieldNumber (kcal m), protein = fieldNumber (protein m),
      carbs = fieldNumber (carbs m), fat = fieldNumber (fat m)\<rparr>"

text \<open>
  A well-formed breakdown, as the data model of the specification has it: four fields
  that are non-negative finite numbers.
\<close>

definition wellFormedField :: "field \<Rightarrow> bool" where
  "wellFormedField x = (case x of Num (Fin r) \<Rightarrow> 0 \<le> r | _ \<Rightarrow> False)"

definition wellFormed :: "field MacroBreakdown \<Rightarrow> bool" where
  "wellFormed m =
     (wellFormedField (kcal m) \<and> wellFormedField (protein m) \<and> wellFormedField (carbs m)
      \<and> wellFormedField (fat m))"

text \<open>
  The element-wise sum over the items of a response as the client types them, a field
  that is \<open>NaN\<close> counting as 0.
\<close>

definition clientSum :: "MealItem list \<Rightarrow> number MacroBreakdown" where
  "clientSum its =
     \<lparr>kcal = sumOver (map (\<lambda>i. orZero (kcal i)) its),
      protein = sumOver (map (\<lambda>i. orZero (protein i)) its),
      carbs = sumOver (map (\<lambda>i. orZero (carbs i)) its),
      fat = sumOver (map (\<lambda>i. orZero (fat i)) its)\<rparr>"

section \<open>Concrete requests, answers and states\<close>

text \<open>
  A configured gateway with a valid request, whose service answers with text that parses
  to the given value.
\<close>

definition serviceAnswers :: "json \<Rightarrow> gateway_env" where
  "serviceAnswers parsed =
     \<lparr>stringToNumber = (\<lambda>_. NaN), numberToString = (\<lambda>_. []),
      jsonParse = (\<lambda>_. Some parsed),
      OPENAI_API_KEY = Some ''sk-test'',
      reqJson = Some \<lparr>p_message = Some ''rice and chicken'', p_imageBase64 = None,
                      p_mealLabel = Some ''Dinner''\<rparr>,
      complete = (\<lambda>_. Some (Some ''{}''))\<rparr>"

definition rice :: json where
  "rice = JObj [(''name'', JStr ''Rice''), (''quantity'', JStr ''1 cup''),
     (''kcal'', JNum 200), (''protein'', JNum 4), (''carbs'', JNum 45), (''fat'', JNum 1)]"

definition chicken :: json where
  "chicken = JObj [(''name'', JStr ''Chicken''), (''quantity'', JStr ''100g''),
     (''kcal'', JNum 165), (''protein'', JNum 31), (''carbs'', JNum 0), (''fat'', JNum 4)]"

definition riceAndChicken :: json where
  "riceAndChicken =
     JObj [(''items'', JArr [rice, chicken]),
           (''total'', JObj [(''kcal'', JNum 999), (''protein'', JNum 1),
                             (''carbs'', JNum 1), (''fat'', JNum 1)])]"

definition riceAndNull :: json where
  "riceAndNull = JObj [(''items'', JArr [rice, JNull])]"

definition oddRice :: json where
  "oddRice = JObj [(''name'', JStr ''Rice''), (''kcal'', JObj [(''toString'', JNum 5)])]"

definition oddRiceOnly :: json where
  "oddRiceOnly = JObj [(''items'', JArr [oddRice])]"

definition tea :: json where
  "tea = JObj [(''name'', JStr ''Tea''), (''quantity'', JStr ''1 cup''),
     (''kcal'', JStr ''a lot'')]"

definition teaOnly :: json where
  "teaOnly = JObj [(''items'', JArr [tea])]"

definition noList :: json where
  "noList = JObj [(''items'', JStr ''none'')]"

definition celery :: json where
  "celery = JObj [(''name'', JStr ''Celery''), (''quantity'', JStr ''1 stalk''),
     (''kcal'', JNum (- 5)), (''protein'', JNum 0), (''carbs'', JNum 1), (''fat'', JNum 0)]"

definition celeryOnly :: json where
  "celeryOnly = JObj [(''items'', JArr [celery])]"

definition unconfigured :: gateway_env where
  "unconfigured =
     \<lparr>stringToNumber = (\<lambda>_. NaN), numberToString = (\<lambda>_. []),
      jsonParse = (\<lambda>_. None),
      OPENAI_API_KEY = None,
      reqJson = None,
      complete = (\<lambda>_. None)\<rparr>"

definition dinnerEntry :: MealEntry where
  "dinnerEntry =
     \<lparr>id' = ''7d1c'', title = ''Dinner'', time = ''07:30 PM'',
      macros = \<lparr>kcal = Num (Fin 365), protein = Num (Fin 35), carbs = Num (Fin 45),
                fat = Num (Fin 5)\<rparr>,
      items = [], image = None, notes' = None, confidence = None\<rparr>"

definition oneDinner :: client_state where
  "oneDinner =
     \<lparr>selectedDate = ''2024-05-01'',
      historyByDate = [''2024-05-01'' \<mapsto> [dinnerEntry]],
      chat = [(Assistant, initialAssistantMessage)],
      message = ''an apple'', imagePreview = None, isSending = False, error = None\<rparr>"

definition clientEnv :: "fetch_result \<Rightarrow> client_env" where
  "clientEnv r =
     \<lparr>hourSent = 19, hourReceived = 19, randomUUID = ''9f2b'', localeTime = ''07:45 PM'',
      fetch = (\<lambda>_. r), roundStr = (\<lambda>_. ''0''), percentStr = (\<lambda>_. ''90'')\<rparr>"

definition emptyDraft :: client_state where
  "emptyDraft = oneDinner\<lparr>message := []\<rparr>"

definition apple :: MealItem where
  "apple = \<lparr>kcal = Fin 95, protein = Fin 0, carbs = Fin 25, fat = Fin 0,
            name = ''Apple'', quantity = ''1 medium''\<rparr>"

definition withTotal :: AnalyzeResponse where
  "withTotal =
     \<lparr>r_mealTitle = ''Snack'', r_items = Some [apple], r_notes = None,
      r_confidence = Some (Fin (3 / 4)),
      r_total = Some \<lparr>kcal = Num (Fin 100), protein = Num (Fin 1), carbs = Num (Fin 26),
                        fat = Num (Fin 1)\<rparr>\<rparr>"

definition withNullTotal :: AnalyzeResponse where
  "withNullTotal =
     \<lparr>r_mealTitle = ''Snack'', r_items = Some [apple], r_notes = None,
      r_confidence = None,
      r_total = Some \<lparr>kcal = Null, protein = Num (Fin 0), carbs = Num (Fin 25),
                        fat = Num (Fin 0)\<rparr>\<rparr>"

definition withoutTotal :: AnalyzeResponse where
  "withoutTotal =
     \<lparr>r_mealTitle = ''Snack'', r_items = Some [], r_notes = None,
      r_confidence = None, r_total = None\<rparr>"

definition twoDays :: client_state where
  "twoDays =
     \<lparr>selectedDate = ''2024-05-01'',
      historyByDate = [''2024-04-30'' \<mapsto> [dinnerEntry, dinnerEntry],
                       ''2024-05-01'' \<mapsto> [dinnerEntry]],
      chat = [(Assistant, initialAssistantMessage)],
      message = [], imagePreview = Some ''data:image/png;base64,iVBORw0KGgo='',
      isSending = False, error = None\<rparr>"

definition gatewayDown :: fetch_result where
  "gatewayDown = NotOk (Some ''Unable to analyze meal right now.'')"

section \<open>Properties\<close>

lemma pow2_pos: "0 < pow2 k"
  by (simp add: pow2_def)

text \<open>The exponent is the one of the binade, and the rounding is to a nearest integer.\<close>

lemma exponent_bounds:
  assumes "0 < r"
  shows "pow2 (exponent r) \<le> r \<and> r < pow2 (exponent r + 1)"
proof (cases "1 \<le> r")
  case True
  define n where "n = \<lfloor>r\<rfloor>"
  from True have n: "0 < n" by (simp add: n_def)
  then have b: "1 \<le> bitlen n"
    using bitlen_eq_zero_iff [of n] bitlen_nonneg [of n] by linarith
  from bitlen_bounds [OF n] have lo: "2 ^ nat (bitlen n - 1) \<le> n" and hi: "n < 2 ^ nat (bitlen n)"
    by simp_all
  have e: "exponent r = bitlen n - 1" using True by (simp add: exponent_def n_def)
  have "(of_int (2 ^ nat (bitlen n - 1)) :: rat) \<le> of_int n"
    using lo by (simp only: of_int_le_iff)
  also have "\<dots> \<le> r" by (simp add: n_def)
  finally have 1: "pow2 (exponent r) \<le> r" using b by (simp add: e pow2_def)
  from hi have "n + 1 \<le> 2 ^ nat (bitlen n)" by simp
  then have "(of_int (n + 1) :: rat) \<le> of_int (2 ^ nat (bitlen n))"
    by (simp only: of_int_le_iff)
  moreover have "r < of_int (n + 1)" unfolding n_def by linarith
  ultimately have "r < of_int (2 ^ nat (bitlen n))" by linarith
  then have 2: "r < pow2 (exponent r + 1)" using b by (simp add: e pow2_def)
  from 1 2 show ?thesis ..
next
  case False
  then have r1: "r < 1" by simp
  define m where "m = \<lceil>1 / r\<rceil> - 1"
  from assms r1 have "1 < 1 / r" by simp
  then have m: "0 < m" unfolding m_def by linarith
  then have b: "1 \<le> bitlen m"
    using bitlen_eq_zero_iff [of m] bitlen_nonneg [of m] by linarith
  define j where "j = nat (bitlen m)"
  from b have j: "bitlen m = int j" "0 < j" by (simp_all add: j_def)
  from bitlen_bounds [OF m] j have lo: "2 ^ (j - 1) \<le> m" and hi: "m < 2 ^ j"
    by (simp_all add: nat_diff_distrib)
  have e: "exponent r = - int j" using False by (simp add: exponent_def m_def [symmetric] j)
  have "1 / r \<le> of_int (m + 1)" unfolding m_def by simp
  also have "(of_int (m + 1) :: rat) \<le> of_int (2 ^ j)"
    using hi by (simp only: of_int_le_iff)
  finally have "1 / r \<le> 2 ^ j" by simp
  with assms have "1 \<le> 2 ^ j * r" by (simp add: field_simps)
  then have 1: "pow2 (exponent r) \<le> r"
    using j(2) by (simp add: e pow2_def field_simps)
  have "of_int m < 1 / r" unfolding m_def by linarith
  moreover have "(2 ^ (j - 1) :: rat) \<le> of_int m"
    using of_int_le_iff [of "2 ^ (j - 1)" m, where ?'a = rat] lo by simp
  ultimately have "2 ^ (j - 1) < 1 / r" by linarith
  with assms have lt: "2 ^ (j - 1) * r < 1" by (simp add: field_simps)
  have 2: "r < pow2 (exponent r + 1)"
  proof (cases "j = 1")
    case True
    with r1 show ?thesis by (simp add: e pow2_def)
  next
    case False
    with j(2) have "- int j + 1 < 0" "nat (int j - 1) = j - 1" by simp_all
    with lt show ?thesis by (simp add: e pow2_def field_simps)
  qed
  from 1 2 show ?thesis ..
qed

lemma roundHalfEven_nearest: "\<bar>of_int (roundHalfEven x) - x\<bar> \<le> 1 / 2"
proof -
  define f where "f = \<lfloor>x\<rfloor>"
  define d where "d = x - of_int f"
  have d: "0 \<le> d" "d < 1" unfolding d_def f_def by linarith+
  have lo: "of_int f - x = - d" and hi: "of_int (f + 1) - x = 1 - d"
    by (simp_all add: d_def)
  have r: "roundHalfEven x
      = (if d < 1 / 2 then f else if 1 / 2 < d then f + 1 else if even f then f else f + 1)"
    by (simp add: roundHalfEven_def Let_def f_def d_def)
  show ?thesis
  proof (cases "d < 1 / 2")
    case True
    with r d lo show ?thesis by simp
  next
    case False
    show ?thesis
    proof (cases "1 / 2 < d")
      case True
      with r d hi \<open>\<not> d < 1 / 2\<close> show ?thesis by simp
    next
      case False
      with \<open>\<not> d < 1 / 2\<close> have "d = 1 / 2" by simp
      with r lo hi show ?thesis by (cases "even f") simp_all
    qed
  qed
qed

lemma roundHalfEven_nonneg: "0 \<le> x \<Longrightarrow> 0 \<le> roundHalfEven x"
  by (auto simp: roundHalfEven_def Let_def)

lemma roundHalfEven_of_int: "roundHalfEven (of_int m) = m"
  by (simp add: roundHalfEven_def)

lemma roundPos_nonneg: "0 \<le> r \<Longrightarrow> 0 \<le> roundPos r"
  using pow2_pos [of "max (exponent r) (- 1022) - 52"]
  by (simp add: roundPos_def Let_def roundHalfEven_nonneg less_imp_le)

lemma roundDouble_nonneg: "0 \<le> r \<Longrightarrow> nonneg (roundDouble r)"
  by (simp add: roundDouble_def nonneg_def roundPos_nonneg)

lemma roundPos_of_int:
  assumes "0 < n" "n < 2 ^ 53"
  shows "roundPos (of_int n) = of_int n"
proof -
  from assms(1) have one: "(1::rat) \<le> of_int n" by simp
  then have e: "exponent (of_int n) = bitlen n - 1"
    by (simp add: exponent_def)
  from assms(1) have b1: "1 \<le> bitlen n"
    using bitlen_eq_zero_iff [of n] bitlen_nonneg [of n] by linarith
  from bitlen_bounds [OF assms(1)] have "2 ^ nat (bitlen n - 1) \<le> n" by simp
  with assms(2) have "(2::int) ^ nat (bitlen n - 1) < 2 ^ 53" by linarith
  then have "nat (bitlen n - 1) < 53" by (simp only: power_strict_increasing_iff one_less_numeral_iff semiring_norm)
  with b1 have b2: "bitlen n \<le> 53" by linarith
  define j where "j = nat (53 - bitlen n)"
  from b1 b2 have k: "max (exponent (of_int n)) (- 1022) - 52 = - int j"
    by (simp add: e j_def)
  have p: "pow2 (- int j) = 1 / 2 ^ j"
    by (auto simp: pow2_def)
  have "of_int n / pow2 (- int j) = (of_int (n * 2 ^ j) :: rat)"
    by (simp add: p)
  then have "roundHalfEven (of_int n / pow2 (- int j)) = n * 2 ^ j"
    by (simp only: roundHalfEven_of_int)
  then show ?thesis
    by (simp add: roundPos_def Let_def k p)
qed

lemma roundDouble_of_int:
  assumes "\<bar>n\<bar> < 2 ^ 53"
  shows "roundDouble (of_int n) = Fin (of_int n)"
proof -
  have big: "(of_int m :: rat) < 2 ^ 1024" if "m < 2 ^ 53" for m :: int
  proof -
    from that have "(of_int m :: rat) < of_int (2 ^ 53)" by (simp only: of_int_less_iff)
    also have "\<dots> \<le> 2 ^ 1024" by simp
    finally show ?thesis .
  qed
  consider "n = 0" | "0 < n" | "n < 0" by linarith
  then show ?thesis
  proof cases
    case 1
    then show ?thesis by (simp add: roundDouble_def)
  next
    case 2
    with assms have "n < 2 ^ 53" by simp
    with 2 show ?thesis
      using big [of n] by (simp add: roundDouble_def roundPos_of_int)
  next
    case 3
    with assms have m: "0 < - n" "- n < 2 ^ 53" by simp_all
    have "roundPos (- of_int n) = - of_int n"
      using roundPos_of_int [OF m] by simp
    with 3 m show ?thesis
      using big [of "- n"] by (simp add: roundDouble_def)
  qed
qed

lemma roundDouble_numeral [simp]:
  "numeral w < (2::int) ^ 53 \<Longrightarrow> roundDouble (numeral w) = Fin (numeral w)"
  using roundDouble_of_int [of "numeral w"] by simp

lemma roundDouble_neg_numeral [simp]:
  "numeral w < (2::int) ^ 53 \<Longrightarrow> roundDouble (- numeral w) = Fin (- numeral w)"
  using roundDouble_of_int [of "- numeral w"] by simp

lemma roundDouble_0 [simp]: "roundDouble 0 = Fin 0"
  by (simp add: roundDouble_def)

lemma roundDouble_1 [simp]: "roundDouble 1 = Fin 1"
  using roundDouble_of_int [of 1] by simp

text \<open>The doubles nearest to 0.1 and 0.2 add up to the double printed 0.30000000000000004.\<close>

lemma tenth_plus_fifth:
  "roundDouble (1 / 10) = Fin (3602879701896397 / 2 ^ 55)
   \<and> roundDouble (1 / 5) = Fin (3602879701896397 / 2 ^ 54)
   \<and> add (Fin (3602879701896397 / 2 ^ 55)) (Fin (3602879701896397 / 2 ^ 54))
       = Fin (5404319552844596 / 2 ^ 54)"
  by code_simp

lemma nonneg_add: "nonneg x \<Longrightarrow> nonneg y \<Longrightarrow> nonneg (add x y)"
proof (cases x; cases y)
  fix a b assume "x = Fin a" "y = Fin b" "nonneg x" "nonneg y"
  then have "0 \<le> a + b" by (simp add: nonneg_def)
  then have "nonneg (roundDouble (a + b))" by (rule roundDouble_nonneg)
  with \<open>x = Fin a\<close> \<open>y = Fin b\<close> show "nonneg (add x y)" by simp
qed (simp_all add: nonneg_def)

lemma foldl_add_nonneg:
  "nonneg acc \<Longrightarrow> \<forall>x\<in>set xs. nonneg x \<Longrightarrow> nonneg (foldl add acc xs)"
  by (induction xs arbitrary: acc) (simp_all add: nonneg_add)

lemma orZero_not_NaN: "orZero x \<noteq> NaN"
  by (simp add: orZero_def)

lemma coerce_asNumber: "coerce B item f = Some x \<Longrightarrow> x = asNumber B item f"
  by (auto simp: coerce_def asNumber_def orZero_def split: option.splits)

lemma addItem_Some:
  "addItem B acc item = Some acc' \<Longrightarrow>
     kcal acc' = add (kcal acc) (asNumber B item ''kcal'') \<and>
     protein acc' = add (protein acc) (asNumber B item ''protein'') \<and>
     carbs acc' = add (carbs acc) (asNumber B item ''carbs'') \<and>
     fat acc' = add (fat acc) (asNumber B item ''fat'')"
  unfolding addItem_def
  by (auto split: Option.bind_splits dest!: coerce_asNumber)

lemma reduceItems_sum:
  "reduceItems B acc its = Some t \<Longrightarrow>
     kcal t = foldl add (kcal acc) (map (\<lambda>i. asNumber B i ''kcal'') its) \<and>
     protein t = foldl add (protein acc) (map (\<lambda>i. asNumber B i ''protein'') its) \<and>
     carbs t = foldl add (carbs acc) (map (\<lambda>i. asNumber B i ''carbs'') its) \<and>
     fat t = foldl add (fat acc) (map (\<lambda>i. asNumber B i ''fat'') its)"
proof (induction its arbitrary: acc)
  case Nil
  then show ?case by simp
next
  case (Cons item rest)
  from Cons.prems obtain acc' where a: "addItem B acc item = Some acc'"
    and r: "reduceItems B acc' rest = Some t"
    by (auto split: option.splits)
  from Cons.IH [OF r] addItem_Some [OF a] show ?case
    by simp
qed

lemma POST_Success:
  "fst (POST env) = Success e \<Longrightarrow>
   \<exists>payload raw parsed. reqJson env = Some payload \<and>
      complete env (userContent payload) = Some (Some raw) \<and>
      jsonParse env raw = Some parsed \<and>
      buildEstimate env (p_mealLabel payload) raw parsed = Some e"
  by (auto simp: POST_def tryAnalyze_def split: if_splits option.splits)

lemma buildEstimate_Some:
  "buildEstimate B l raw parsed = Some e \<Longrightarrow>
     itemsOf parsed = Some (e_items e) \<and> reduceItems B zeroMacros (e_items e) = Some (e_total e)"
  by (auto simp: buildEstimate_def split: Option.bind_splits)

lemma reduceItem_total:
  "reduceItems B zeroMacros its = Some t \<Longrightarrow> t = elementwiseSum B its"
  using reduceItems_sum [of B zeroMacros its t]
  by (simp add: elementwiseSum_def sumOver_def zeroMacros_def)

lemma buildEstimate_total_ignored:
  "buildEstimate B l raw (JObj ((''total'', t) # kvs)) = buildEstimate B l raw (JObj kvs)"
  by (simp add: buildEstimate_def itemsOf_def)

lemma example_total:
  "fst (POST (serviceAnswers riceAndChicken)) =
     Success \<lparr>e_mealTitle = JStr ''Dinner'', e_items = [rice, chicken], e_notes = None,
              e_confidence = None,
              e_total = \<lparr>kcal = Fin 365, protein = Fin 35, carbs = Fin 45, fat = Fin 5\<rparr>,
              e_raw = ''{}''\<rparr>"
  by (simp add: POST_def serviceAnswers_def riceAndChicken_def falsy_def userContent_def
      tryAnalyze_def buildEstimate_def itemsOf_def rice_def chicken_def addItem_def coerce_def
      orZero_def zeroMacros_def)

lemma POST_answered:
  assumes "\<not> falsy (OPENAI_API_KEY env)"
    and "reqJson env = Some payload"
    and "\<not> (falsy (p_message payload) \<and> falsy (p_imageBase64 payload))"
    and "complete env (userContent payload) = Some (Some raw)" "raw \<noteq> []"
    and "jsonParse env raw = Some parsed"
  shows "fst (POST env) =
           (case buildEstimate env (p_mealLabel payload) raw parsed of
              None \<Rightarrow> ErrorResponse 500 ''Unable to analyze meal right now.''
            | Some e \<Rightarrow> Success e)"
  using assms by (auto simp: POST_def tryAnalyze_def)

lemma sequence_map_Some_iff: "(sequence (map g xs) \<noteq> None) = (\<forall>x\<in>set xs. g x \<noteq> None)"
proof (induction xs)
  case Nil
  show ?case by simp
next
  case (Cons x xs)
  then show ?case by (cases "g x") (simp_all del: not_None_eq)
qed

lemma toStringJ_converts: "(toStringJ ns v \<noteq> None) = converts v"
proof (induction ns v rule: toStringJ.induct)
  case (5 ns xs)
  let ?g = "\<lambda>x. if x = JNull then Some [] else toStringJ ns x"
  have "(toStringJ ns (JArr xs) \<noteq> None) = (sequence (map ?g xs) \<noteq> None)"
    by (simp del: not_None_eq)
  also have "\<dots> = (\<forall>x\<in>set xs. ?g x \<noteq> None)"
    by (rule sequence_map_Some_iff)
  also have "\<dots> = (\<forall>x\<in>set xs. converts x)"
  proof (rule ball_cong [OF refl])
    fix x assume "x \<in> set xs"
    then show "(?g x \<noteq> None) = converts x"
      using 5 [of x] by (cases "x = JNull") (simp_all del: not_None_eq)
  qed
  finally show ?case by simp
qed simp_all

lemma Number_converts: "(Number B (Some v) \<noteq> None) = converts v"
  using toStringJ_converts [of "numberToString B" v] by (cases v) simp_all

lemma coerce_converts:
  "(coerce B item f \<noteq> None)
     = (item \<noteq> JNull \<and> (case getProp item f of Some (Some v) \<Rightarrow> converts v | _ \<Rightarrow> True))"
proof (cases "getProp item f")
  case None
  then show ?thesis by (cases item) (simp_all add: coerce_def)
next
  case (Some p)
  then have n: "item \<noteq> JNull" by (cases item) simp_all
  show ?thesis
  proof (cases p)
    case None
    with Some n show ?thesis by (simp add: coerce_def)
  next
    case (Some v)
    with \<open>getProp item f = Some p\<close> n Number_converts [of B v] show ?thesis
      by (simp add: coerce_def)
  qed
qed

lemma addItem_summable: "(addItem B acc item \<noteq> None) = summable item"
proof -
  have "(addItem B acc item \<noteq> None)
      = (coerce B item ''kcal'' \<noteq> None \<and> coerce B item ''protein'' \<noteq> None
         \<and> coerce B item ''carbs'' \<noteq> None \<and> coerce B item ''fat'' \<noteq> None)"
    by (auto simp: addItem_def split: Option.bind_splits)
  also have "\<dots> = summable item"
    unfolding coerce_converts by (auto simp: summable_def macroFields_def)
  finally show ?thesis .
qed

lemma reduceItems_summable: "(reduceItems B acc its \<noteq> None) = list_all summable its"
proof (induction its arbitrary: acc)
  case Nil
  show ?case by simp
next
  case (Cons item rest)
  show ?case
  proof (cases "addItem B acc item")
    case None
    with addItem_summable [of B acc item] show ?thesis by simp
  next
    case (Some acc')
    with addItem_summable [of B acc item] Cons [of acc'] show ?thesis by simp
  qed
qed

lemma buildEstimate_summable:
  assumes "itemsOf parsed = Some its" "list_all summable its"
  shows "\<exists>e. buildEstimate B l raw parsed = Some e \<and> e_items e = its
           \<and> e_total e = elementwiseSum B its"
proof -
  from assms(2) obtain t where t: "reduceItems B zeroMacros its = Some t"
    using reduceItems_summable [of B zeroMacros its] by auto
  then have "t = elementwiseSum B its" by (rule reduceItem_total)
  with assms(1) t show ?thesis by (simp add: buildEstimate_def)
qed

lemma buildEstimate_not_summable:
  assumes "itemsOf parsed = Some its" "\<not> list_all summable its"
  shows "buildEstimate B l raw parsed = None"
proof -
  from assms(2) have "reduceItems B zeroMacros its = None"
    using reduceItems_summable [of B zeroMacros its] by simp
  with assms(1) show ?thesis by (simp add: buildEstimate_def)
qed

lemma riceAndNull_fails:
  "fst (POST (serviceAnswers riceAndNull))
     = ErrorResponse 500 ''Unable to analyze meal right now.''"
  by (simp add: POST_def serviceAnswers_def riceAndNull_def falsy_def userContent_def
      tryAnalyze_def buildEstimate_def itemsOf_def rice_def addItem_def coerce_def
      orZero_def zeroMacros_def)

lemma oddRiceOnly_fails:
  "fst (POST (serviceAnswers oddRiceOnly))
     = ErrorResponse 500 ''Unable to analyze meal right now.''"
  by (simp add: POST_def serviceAnswers_def oddRiceOnly_def oddRice_def falsy_def
      userContent_def tryAnalyze_def buildEstimate_def itemsOf_def addItem_def coerce_def
      orZero_def zeroMacros_def)

text \<open>
  Claim C1, as the code has it. Whenever the gateway answers with an estimate, the total
  of that estimate is the field-by-field sum over the items it returns, added up in their
  order, where a field that is missing, or whose numeric coercion gives \<open>NaN\<close>, counts
  as 0. For a valid request whose answer parses to a value other than \<^verbatim>\<open>null\<close>, the
  gateway answers with such an estimate exactly when every item can be summed: no item is
  \<^verbatim>\<open>null\<close> and no macro field holds an object with an own \<^verbatim>\<open>toString\<close> property.
  Otherwise the coercion throws and the gateway answers with the general error of status
  500, and no total. A \<^verbatim>\<open>total\<close> property of the service's own answer plays no part in
  the result. The answer with the items Rice (200, 4, 45, 1) and Chicken (165, 31, 0, 4)
  and a disagreeing total of its own gives the total (365, 35, 45, 5).
\<close>

theorem gateway_total_is_sum_of_items:
  "(\<forall>e. fst (POST env) = Success e \<longrightarrow> e_total e = elementwiseSum env (e_items e))
   \<and> (\<not> falsy (OPENAI_API_KEY env) \<and> reqJson env = Some payload
        \<and> \<not> (falsy (p_message payload) \<and> falsy (p_imageBase64 payload))
        \<and> complete env (userContent payload) = Some (Some raw) \<and> raw \<noteq> []
        \<and> jsonParse env raw = Some parsed
        \<and> itemsOf parsed = Some its \<longrightarrow>
        (if list_all summable its
         then \<exists>e. fst (POST env) = Success e \<and> e_items e = its
                \<and> e_total e = elementwiseSum env its
         else fst (POST env) = ErrorResponse 500 ''Unable to analyze meal right now.''))
   \<and> (\<forall>item f. getProp item f = Some None \<longrightarrow> asNumber env item f = Fin 0)
   \<and> (\<forall>item f. Option.bind (getProp item f) (Number env) = Some NaN \<longrightarrow>
                 asNumber env item f = Fin 0)
   \<and> (\<forall>l raw t kvs. buildEstimate env l raw (JObj ((''total'', t) # kvs))
                      = buildEstimate env l raw (JObj kvs))
   \<and> (\<exists>e. fst (POST (serviceAnswers riceAndChicken)) = Success e
          \<and> e_items e = [rice, chicken]
          \<and> e_total e = \<lparr>kcal = Fin 365, protein = Fin 35, carbs = Fin 45, fat = Fin 5\<rparr>)"
proof -
  have 1: "\<forall>e. fst (POST env) = Success e \<longrightarrow> e_total e = elementwiseSum env (e_items e)"
  proof (intro allI impI)
    fix e assume "fst (POST env) = Success e"
    then obtain payload :: AnalyzePayload and raw parsed
      where "buildEstimate env (p_mealLabel payload) raw parsed = Some e"
      by (blast dest: POST_Success)
    then show "e_total e = elementwiseSum env (e_items e)"
      by (blast dest: buildEstimate_Some reduceItem_total)
  qed
  have 2: "if list_all summable its
         then \<exists>e. fst (POST env) = Success e \<and> e_items e = its
                \<and> e_total e = elementwiseSum env its
         else fst (POST env) = ErrorResponse 500 ''Unable to analyze meal right now.''"
    if h: "\<not> falsy (OPENAI_API_KEY env) \<and> reqJson env = Some payload
        \<and> \<not> (falsy (p_message payload) \<and> falsy (p_imageBase64 payload))
        \<and> complete env (userContent payload) = Some (Some raw) \<and> raw \<noteq> []
        \<and> jsonParse env raw = Some parsed
        \<and> itemsOf parsed = Some its"
  proof -
    from h have post: "fst (POST env) =
           (case buildEstimate env (p_mealLabel payload) raw parsed of
              None \<Rightarrow> ErrorResponse 500 ''Unable to analyze meal right now.''
            | Some e \<Rightarrow> Success e)"
      by (intro POST_answered) simp_all
    from h have i: "itemsOf parsed = Some its" by simp
    show ?thesis
    proof (cases "list_all summable its")
      case True
      from buildEstimate_summable [OF i True, of env "p_mealLabel payload" raw]
      obtain e where "buildEstimate env (p_mealLabel payload) raw parsed = Some e"
        "e_items e = its" "e_total e = elementwiseSum env its"
        by auto
      with post True show ?thesis by simp
    next
      case False
      from buildEstimate_not_summable [OF i False, of env "p_mealLabel payload" raw]
        post False
      show ?thesis by simp
    qed
  qed
  have 3: "\<forall>item f. getProp item f = Some None \<longrightarrow> asNumber env item f = Fin 0"
    by (simp add: asNumber_def)
  have 4: "\<forall>item f. Option.bind (getProp item f) (Number env) = Some NaN \<longrightarrow>
                 asNumber env item f = Fin 0"
    by (simp add: asNumber_def)
  have 5: "\<forall>l raw t kvs. buildEstimate env l raw (JObj ((''total'', t) # kvs))
                      = buildEstimate env l raw (JObj kvs)"
    by (simp add: buildEstimate_total_ignored)
  have 6: "\<exists>e. fst (POST (serviceAnswers riceAndChicken)) = Success e
          \<and> e_items e = [rice, chicken]
          \<and> e_total e = \<lparr>kcal = Fin 365, protein = Fin 35, carbs = Fin 45, fat = Fin 5\<rparr>"
    by (simp add: example_total)
  show ?thesis
    apply (rule conjI, rule 1)
    apply (rule conjI, rule impI, erule 2)
    apply (rule conjI, rule 3)
    apply (rule conjI, rule 4)
    apply (rule conjI, rule 5)
    apply (rule 6)
    done
qed

theorem gateway_total_is_sum_of_items_witness:
  "(\<exists>e. fst (POST (serviceAnswers riceAndChicken)) = Success e
        \<and> e_items e = [rice, chicken]
        \<and> e_total e = elementwiseSum (serviceAnswers riceAndChicken) [rice, chicken])
   \<and> elementwiseSum (serviceAnswers riceAndChicken) [rice, chicken]
     = \<lparr>kcal = Fin 365, protein = Fin 35, carbs = Fin 45, fat = Fin 5\<rparr>
   \<and> fst (POST (serviceAnswers riceAndNull))
     = ErrorResponse 500 ''Unable to analyze meal right now.''
   \<and> asNumber (serviceAnswers riceAndChicken) (JObj [(''name'', JStr ''Tea'')]) ''kcal'' = Fin 0
   \<and> asNumber (serviceAnswers riceAndChicken) (JObj [(''kcal'', JStr ''a lot'')]) ''kcal'' = Fin 0"
proof -
  let ?env = "serviceAnswers riceAndChicken"
  let ?payload = "\<lparr>p_message = Some ''rice and chicken'', p_imageBase64 = None,
                    p_mealLabel = Some ''Dinner''\<rparr>"
  note t = gateway_total_is_sum_of_items
    [of ?env ?payload "''{}''" riceAndChicken "[rice, chicken]"]
  note u = gateway_total_is_sum_of_items
    [of "serviceAnswers riceAndNull" ?payload "''{}''" riceAndNull "[rice, JNull]"]
  have h: "\<not> falsy (OPENAI_API_KEY (serviceAnswers p)) \<and> reqJson (serviceAnswers p) = Some ?payload
        \<and> \<not> (falsy (p_message ?payload) \<and> falsy (p_imageBase64 ?payload))
        \<and> complete (serviceAnswers p) (userContent ?payload) = Some (Some ''{}'') \<and> ''{}'' \<noteq> []
        \<and> jsonParse (serviceAnswers p) ''{}'' = Some p" for p
    by (simp add: serviceAnswers_def falsy_def)
  have i: "itemsOf riceAndChicken = Some [rice, chicken]"
    "itemsOf riceAndNull = Some [rice, JNull]"
    by (simp_all add: riceAndChicken_def riceAndNull_def itemsOf_def)
  have s: "list_all summable [rice, chicken]" "\<not> list_all summable [rice, JNull]"
    by (simp_all add: summable_def macroFields_def rice_def chicken_def)
  from t have "\<not> falsy (OPENAI_API_KEY ?env) \<and> reqJson ?env = Some ?payload
        \<and> \<not> (falsy (p_message ?payload) \<and> falsy (p_imageBase64 ?payload))
        \<and> complete ?env (userContent ?payload) = Some (Some ''{}'') \<and> ''{}'' \<noteq> []
        \<and> jsonParse ?env ''{}'' = Some riceAndChicken
        \<and> itemsOf riceAndChicken = Some [rice, chicken] \<longrightarrow>
        (if list_all summable [rice, chicken]
         then \<exists>e. fst (POST ?env) = Success e \<and> e_items e = [rice, chicken]
                \<and> e_total e = elementwiseSum ?env [rice, chicken]
         else fst (POST ?env) = ErrorResponse 500 ''Unable to analyze meal right now.'')"
    by (elim conjE)
  with h [of riceAndChicken] i(1) s(1)
  have 0: "\<exists>e. fst (POST ?env) = Success e \<and> e_items e = [rice, chicken]
           \<and> e_total e = elementwiseSum ?env [rice, chicken]" by simp
  from u have "\<not> falsy (OPENAI_API_KEY (serviceAnswers riceAndNull))
        \<and> reqJson (serviceAnswers riceAndNull) = Some ?payload
        \<and> \<not> (falsy (p_message ?payload) \<and> falsy (p_imageBase64 ?payload))
        \<and> complete (serviceAnswers riceAndNull) (userContent ?payload) = Some (Some ''{}'')
        \<and> ''{}'' \<noteq> []
        \<and> jsonParse (serviceAnswers riceAndNull) ''{}'' = Some riceAndNull
        \<and> itemsOf riceAndNull = Some [rice, JNull] \<longrightarrow>
        (if list_all summable [rice, JNull]
         then \<exists>e. fst (POST (serviceAnswers riceAndNull)) = Success e \<and> e_items e = [rice, JNull]
                \<and> e_total e = elementwiseSum (serviceAnswers riceAndNull) [rice, JNull]
         else fst (POST (serviceAnswers riceAndNull))
                = ErrorResponse 500 ''Unable to analyze meal right now.'')"
    by (elim conjE)
  with h [of riceAndNull] i(2) s(2)
  have f: "fst (POST (serviceAnswers riceAndNull))
     = ErrorResponse 500 ''Unable to analyze meal right now.''" by simp
  from t have "\<forall>e. fst (POST ?env) = Success e \<longrightarrow> e_total e = elementwiseSum ?env (e_items e)"
    by (elim conjE)
  with example_total have 1: "elementwiseSum ?env [rice, chicken]
     = \<lparr>kcal = Fin 365, protein = Fin 35, carbs = Fin 45, fat = Fin 5\<rparr>" by fastforce
  from t have m: "\<forall>item f. getProp item f = Some None \<longrightarrow> asNumber ?env item f = Fin 0"
    by (elim conjE)
  have 2: "asNumber ?env (JObj [(''name'', JStr ''Tea'')]) ''kcal'' = Fin 0"
    using m by simp
  from t have n: "\<forall>item f. Option.bind (getProp item f) (Number ?env) = Some NaN \<longrightarrow>
      asNumber ?env item f = Fin 0"
    by (elim conjE)
  have 3: "asNumber ?env (JObj [(''kcal'', JStr ''a lot'')]) ''kcal'' = Fin 0"
    using n [rule_format, of "JObj [(''kcal'', JStr ''a lot'')]" "''kcal''"]
    by (simp add: serviceAnswers_def)
  from 0 1 f 2 3 show ?thesis by (intro conjI)
qed

theorem null_item_gives_no_total_counterexample:
  "fst (POST (serviceAnswers riceAndNull))
     = ErrorResponse 500 ''Unable to analyze meal right now.''
   \<and> elementwiseSum (serviceAnswers riceAndNull) [rice, JNull]
     = \<lparr>kcal = Fin 200, protein = Fin 4, carbs = Fin 45, fat = Fin 1\<rparr>
   \<and> fst (POST (serviceAnswers oddRiceOnly))
     = ErrorResponse 500 ''Unable to analyze meal right now.''
   \<and> elementwiseSum (serviceAnswers oddRiceOnly) [oddRice]
     = \<lparr>kcal = Fin 0, protein = Fin 0, carbs = Fin 0, fat = Fin 0\<rparr>"
  by (simp add: riceAndNull_fails oddRiceOnly_fails)
    (simp add: elementwiseSum_def sumOver_def asNumber_def rice_def oddRice_def
      serviceAnswers_def)

lemma itemsOf_not_array:
  "parsed \<noteq> JNull \<Longrightarrow> \<forall>xs. getProp parsed ''items'' \<noteq> Some (Some (JArr xs)) \<Longrightarrow>
     itemsOf parsed = Some []"
  by (cases parsed) (auto simp: itemsOf_def split: option.splits json.splits)

lemma itemsOf_Some:
  "itemsOf parsed = Some its \<Longrightarrow>
     its = (case getProp parsed ''items'' of Some (Some (JArr xs)) \<Rightarrow> xs | _ \<Rightarrow> [])"
  by (auto simp: itemsOf_def split: option.splits json.splits)

lemma buildEstimate_no_items:
  "itemsOf parsed = Some [] \<Longrightarrow>
     \<exists>e. buildEstimate B l raw parsed = Some e \<and> e_items e = [] \<and> e_total e = zeroMacros"
  by (simp add: buildEstimate_def)

lemma addItem_coerce:
  "addItem B acc item = Some acc' \<Longrightarrow> f \<in> set macroFields \<Longrightarrow> \<exists>x. coerce B item f = Some x"
  unfolding addItem_def macroFields_def
  by (auto split: Option.bind_splits)

lemma reduceItems_coerce:
  "reduceItems B acc its = Some t \<Longrightarrow> item \<in> set its \<Longrightarrow> f \<in> set macroFields \<Longrightarrow>
     \<exists>x. coerce B item f = Some x"
proof (induction its arbitrary: acc)
  case Nil
  then show ?case by simp
next
  case (Cons i rest)
  from Cons.prems(1) obtain acc' where a: "addItem B acc i = Some acc'"
    and r: "reduceItems B acc' rest = Some t"
    by (auto split: option.splits)
  show ?case
  proof (cases "item = i")
    case True
    with a Cons.prems(3) show ?thesis by (blast dest: addItem_coerce)
  next
    case False
    with Cons.prems(2) have "item \<in> set rest" by simp
    from Cons.IH [OF r this Cons.prems(3)] show ?thesis .
  qed
qed

lemma coerce_Some:
  "coerce B item f = Some x \<Longrightarrow>
     x \<noteq> NaN \<and> (Option.bind (getProp item f) (Number B) = Some NaN \<longrightarrow> x = Fin 0)"
  by (auto simp: coerce_def orZero_def split: if_splits)

text \<open>
  Claim C2, as the code has it. When the service's answer parses to a value other than
  \<^verbatim>\<open>null\<close> whose \<^verbatim>\<open>items\<close> property is not an array, the gateway still answers with
  an estimate, with no items and a zero total. The items of every estimate are the parsed
  items themselves, unchanged: coercion is applied to what each item adds to the total,
  where every addend is a number other than \<open>NaN\<close>, and is 0 when the coercion of the
  field gives \<open>NaN\<close>.
\<close>

theorem gateway_items_as_parsed:
  assumes "\<not> falsy (OPENAI_API_KEY env)"
    and "reqJson env = Some payload"
    and "\<not> (falsy (p_message payload) \<and> falsy (p_imageBase64 payload))"
    and "complete env (userContent payload) = Some (Some raw)" "raw \<noteq> []"
    and "jsonParse env raw = Some parsed"
  shows "(parsed \<noteq> JNull \<and> (\<forall>xs. getProp parsed ''items'' \<noteq> Some (Some (JArr xs))) \<longrightarrow>
            (\<exists>e. fst (POST env) = Success e \<and> e_items e = [] \<and> e_total e = zeroMacros))
       \<and> (\<forall>e. fst (POST env) = Success e \<longrightarrow>
            e_items e =
              (case getProp parsed ''items'' of Some (Some (JArr xs)) \<Rightarrow> xs | _ \<Rightarrow> [])
            \<and> (\<forall>item\<in>set (e_items e). \<forall>f\<in>set macroFields.
                  \<exists>x. coerce env item f = Some x \<and> x \<noteq> NaN \<and>
                      (Option.bind (getProp item f) (Number env) = Some NaN \<longrightarrow> x = Fin 0)))"
proof -
  let ?b = "buildEstimate env (p_mealLabel payload) raw parsed"
  have post: "fst (POST env) =
      (case ?b of None \<Rightarrow> ErrorResponse 500 ''Unable to analyze meal right now.''
       | Some e \<Rightarrow> Success e)"
    using assms by (rule POST_answered)
  have degrade: "\<exists>e. fst (POST env) = Success e \<and> e_items e = [] \<and> e_total e = zeroMacros"
    if "parsed \<noteq> JNull" "\<forall>xs. getProp parsed ''items'' \<noteq> Some (Some (JArr xs))"
  proof -
    from that have "itemsOf parsed = Some []" by (rule itemsOf_not_array)
    then obtain e where "?b = Some e" "e_items e = []" "e_total e = zeroMacros"
      using buildEstimate_no_items by blast
    with post show ?thesis by simp
  qed
  have verbatim: "e_items e =
        (case getProp parsed ''items'' of Some (Some (JArr xs)) \<Rightarrow> xs | _ \<Rightarrow> [])
      \<and> (\<forall>item\<in>set (e_items e). \<forall>f\<in>set macroFields.
            \<exists>x. coerce env item f = Some x \<and> x \<noteq> NaN \<and>
                (Option.bind (getProp item f) (Number env) = Some NaN \<longrightarrow> x = Fin 0))"
    if "fst (POST env) = Success e" for e
  proof -
    from that post have b: "?b = Some e" by (simp split: option.splits)
    from buildEstimate_Some [OF b]
    have i: "itemsOf parsed = Some (e_items e)"
      and r: "reduceItems env zeroMacros (e_items e) = Some (e_total e)" by simp_all
    have "\<exists>x. coerce env item f = Some x \<and> x \<noteq> NaN \<and>
                (Option.bind (getProp item f) (Number env) = Some NaN \<longrightarrow> x = Fin 0)"
      if "item \<in> set (e_items e)" "f \<in> set macroFields" for item f
      using reduceItems_coerce [OF r that] coerce_Some by blast
    with itemsOf_Some [OF i] show ?thesis by blast
  qed
  from degrade verbatim show ?thesis by blast
qed

lemma noList_estimate:
  "fst (POST (serviceAnswers noList)) =
     Success \<lparr>e_mealTitle = JStr ''Dinner'', e_items = [], e_notes = None,
              e_confidence = None, e_total = zeroMacros, e_raw = ''{}''\<rparr>"
  by (simp add: POST_def serviceAnswers_def noList_def falsy_def userContent_def
      tryAnalyze_def buildEstimate_def itemsOf_def)

lemma teaOnly_estimate:
  "fst (POST (serviceAnswers teaOnly)) =
     Success \<lparr>e_mealTitle = JStr ''Dinner'', e_items = [tea], e_notes = None,
              e_confidence = None, e_total = zeroMacros, e_raw = ''{}''\<rparr>"
  by (simp add: POST_def serviceAnswers_def teaOnly_def tea_def falsy_def userContent_def
      tryAnalyze_def buildEstimate_def itemsOf_def addItem_def coerce_def orZero_def
      zeroMacros_def)

theorem gateway_items_as_parsed_witness:
  "(\<exists>e. fst (POST (serviceAnswers noList)) = Success e \<and> e_items e = []
        \<and> e_total e = zeroMacros)
   \<and> coerce (serviceAnswers teaOnly) tea ''kcal'' = Some (Fin 0)
   \<and> coerce (serviceAnswers teaOnly) tea ''fat'' = Some (Fin 0)"
proof -
  have env: "\<not> falsy (OPENAI_API_KEY (serviceAnswers p))"
    "reqJson (serviceAnswers p) = Some \<lparr>p_message = Some ''rice and chicken'',
        p_imageBase64 = None, p_mealLabel = Some ''Dinner''\<rparr>"
    "\<not> (falsy (p_message \<lparr>p_message = Some ''rice and chicken'',
        p_imageBase64 = None, p_mealLabel = Some ''Dinner''\<rparr>) \<and>
       falsy (p_imageBase64 \<lparr>p_message = Some ''rice and chicken'',
        p_imageBase64 = None, p_mealLabel = Some ''Dinner''\<rparr>))"
    "complete (serviceAnswers p) (userContent \<lparr>p_message = Some ''rice and chicken'',
        p_imageBase64 = None, p_mealLabel = Some ''Dinner''\<rparr>) = Some (Some ''{}'')"
    "''{}'' \<noteq> []"
    "jsonParse (serviceAnswers p) ''{}'' = Some p" for p
    by (simp_all add: serviceAnswers_def falsy_def)
  note a = gateway_items_as_parsed [OF env, of noList]
  note b = gateway_items_as_parsed [OF env, of teaOnly]
  have "noList \<noteq> JNull \<and> (\<forall>xs. getProp noList ''items'' \<noteq> Some (Some (JArr xs)))"
    by (simp add: noList_def)
  with a have 1: "\<exists>e. fst (POST (serviceAnswers noList)) = Success e \<and> e_items e = []
        \<and> e_total e = zeroMacros" by blast
  from b teaOnly_estimate
  have "\<forall>f\<in>set macroFields. \<exists>x. coerce (serviceAnswers teaOnly) tea f = Some x \<and> x \<noteq> NaN \<and>
      (Option.bind (getProp tea f) (Number (serviceAnswers teaOnly)) = Some NaN \<longrightarrow> x = Fin 0)"
    by simp
  then have c: "\<exists>x. coerce (serviceAnswers teaOnly) tea f = Some x \<and>
      (Option.bind (getProp tea f) (Number (serviceAnswers teaOnly)) = Some NaN \<longrightarrow> x = Fin 0)"
    if "f \<in> set macroFields" for f using that by blast
  have 2: "coerce (serviceAnswers teaOnly) tea ''kcal'' = Some (Fin 0)"
    using c [of "''kcal''"] by (auto simp: macroFields_def tea_def serviceAnswers_def)
  have 3: "coerce (serviceAnswers teaOnly) tea ''fat'' = Some (Fin 0)"
    using c [of "''fat''"] by (auto simp: macroFields_def tea_def serviceAnswers_def)
  from 1 2 3 show ?thesis by blast
qed

theorem gateway_items_not_normalized_counterexample:
  "fst (POST (serviceAnswers teaOnly)) =
     Success \<lparr>e_mealTitle = JStr ''Dinner'', e_items = [tea], e_notes = None,
              e_confidence = None, e_total = zeroMacros, e_raw = ''{}''\<rparr>
   \<and> getProp tea ''kcal'' = Some (Some (JStr ''a lot''))
   \<and> getProp tea ''protein'' = Some None
   \<and> \<not> hasNumericMacros tea"
  by (simp add: teaOnly_estimate) (simp add: tea_def hasNumericMacros_def macroFields_def)

lemma sumOver_nonneg: "\<forall>x\<in>set xs. nonneg x \<Longrightarrow> nonneg (sumOver xs)"
  unfolding sumOver_def by (rule foldl_add_nonneg) (simp_all add: nonneg_def)

lemma totals_nonneg_aux:
  "nonnegMacros acc \<Longrightarrow> \<forall>entry\<in>set es. nonnegMacros (numbers (macros entry)) \<Longrightarrow>
     nonnegMacros (foldl addMacros acc es)"
proof (induction es arbitrary: acc)
  case Nil
  then show ?case by simp
next
  case (Cons entry es)
  from Cons.prems have "nonnegMacros (addMacros acc entry)"
    by (simp add: nonnegMacros_def addMacros_def numbers_def nonneg_add)
  with Cons show ?case by simp
qed

lemma celeryOnly_estimate:
  "fst (POST (serviceAnswers celeryOnly)) =
     Success \<lparr>e_mealTitle = JStr ''Dinner'', e_items = [celery], e_notes = None,
              e_confidence = None,
              e_total = \<lparr>kcal = Fin (- 5), protein = Fin 0, carbs = Fin 1, fat = Fin 0\<rparr>,
              e_raw = ''{}''\<rparr>"
  by (simp add: POST_def serviceAnswers_def celeryOnly_def celery_def falsy_def
      userContent_def tryAnalyze_def buildEstimate_def itemsOf_def addItem_def coerce_def
      orZero_def zeroMacros_def)

text \<open>
  Claim C5, as the code has it. Nothing in the gateway or the client rejects or clamps a
  negative value, so the sums are non-negative when what is summed is: the total of an
  estimate has four non-negative fields when every macro field of every returned item
  counts as a non-negative number, and the totals of the selected day have four
  non-negative fields when every field of the macros of every entry logged under that
  day counts as a non-negative number (as a non-negative number does, and \<^verbatim>\<open>null\<close>, which
  counts as 0).
\<close>

theorem totals_nonneg_when_summands_are:
  "(fst (POST env) = Success e \<and>
      (\<forall>item\<in>set (e_items e). \<forall>f\<in>set macroFields. nonneg (asNumber env item f))
      \<longrightarrow> nonnegMacros (e_total e))
   \<and> ((\<forall>entry\<in>set (todaysEntries s). nonnegMacros (numbers (macros entry)))
      \<longrightarrow> nonnegMacros (totals s))"
proof (intro conjI impI)
  assume a: "fst (POST env) = Success e \<and>
    (\<forall>item\<in>set (e_items e). \<forall>f\<in>set macroFields. nonneg (asNumber env item f))"
  then obtain payload :: AnalyzePayload and raw parsed
    where "buildEstimate env (p_mealLabel payload) raw parsed = Some e"
    by (blast dest: POST_Success)
  then have t: "e_total e = elementwiseSum env (e_items e)"
    by (blast dest: buildEstimate_Some reduceItem_total)
  from a have "nonneg (sumOver (map (\<lambda>i. asNumber env i f) (e_items e)))"
    if "f \<in> set macroFields" for f
    using that by (intro sumOver_nonneg) simp
  then show "nonnegMacros (e_total e)"
    unfolding t by (simp add: nonnegMacros_def elementwiseSum_def macroFields_def)
next
  assume "\<forall>entry\<in>set (todaysEntries s). nonnegMacros (numbers (macros entry))"
  moreover have "nonnegMacros zeroMacros"
    by (simp add: nonnegMacros_def zeroMacros_def nonneg_def)
  ultimately show "nonnegMacros (totals s)"
    unfolding totals_def by (intro totals_nonneg_aux)
qed

theorem totals_nonneg_when_summands_are_witness:
  "nonnegMacros \<lparr>kcal = Fin 365, protein = Fin 35, carbs = Fin 45, fat = Fin 5\<rparr>
   \<and> todaysEntries oneDinner = [dinnerEntry]
   \<and> nonnegMacros (totals oneDinner)"
proof -
  let ?env = "serviceAnswers riceAndChicken"
  let ?e = "\<lparr>e_mealTitle = JStr ''Dinner'', e_items = [rice, chicken], e_notes = None,
              e_confidence = None,
              e_total = \<lparr>kcal = Fin 365, protein = Fin 35, carbs = Fin 45, fat = Fin 5\<rparr>,
              e_raw = ''{}''\<rparr>"
  note t = totals_nonneg_when_summands_are [of ?env ?e oneDinner]
  have i: "\<forall>item\<in>set (e_items ?e). \<forall>f\<in>set macroFields. nonneg (asNumber ?env item f)"
    by (simp add: macroFields_def rice_def chicken_def asNumber_def nonneg_def)
  have d: "todaysEntries oneDinner = [dinnerEntry]"
    by (simp add: todaysEntries_def oneDinner_def)
  have m: "\<forall>entry\<in>set (todaysEntries oneDinner). nonnegMacros (numbers (macros entry))"
    unfolding d by (simp add: dinnerEntry_def nonnegMacros_def numbers_def nonneg_def)
  from t example_total i have "nonnegMacros (e_total ?e)" by blast
  moreover from t m have "nonnegMacros (totals oneDinner)" by blast
  ultimately show ?thesis using d by simp
qed

theorem negative_total_counterexample:
  "fst (POST (serviceAnswers celeryOnly)) =
     Success \<lparr>e_mealTitle = JStr ''Dinner'', e_items = [celery], e_notes = None,
              e_confidence = None,
              e_total = \<lparr>kcal = Fin (- 5), protein = Fin 0, carbs = Fin 1, fat = Fin 0\<rparr>,
              e_raw = ''{}''\<rparr>
   \<and> \<not> nonneg (Fin (- 5))
   \<and> \<not> nonnegMacros \<lparr>kcal = Fin (- 5), protein = Fin 0, carbs = Fin 1, fat = Fin 0\<rparr>"
  by (simp add: celeryOnly_estimate) (simp add: nonneg_def nonnegMacros_def)

text \<open>
  Claim C7. Without a credential (absent or empty) the handler answers with the
  configuration error, status 500, and has done nothing else: the body of the request
  has not been read, whatever it holds.
\<close>

theorem POST_without_credential:
  "falsy (OPENAI_API_KEY env) \<Longrightarrow>
     POST env = (ErrorResponse 500 ''OPENAI_API_KEY is not configured.'', [])
     \<and> ReadBody \<notin> set (snd (POST env))"
  by (simp add: POST_def)

theorem POST_without_credential_witness:
  "falsy (OPENAI_API_KEY unconfigured) \<and> reqJson unconfigured = None
   \<and> POST unconfigured = (ErrorResponse 500 ''OPENAI_API_KEY is not configured.'', [])
   \<and> ReadBody \<notin> set (snd (POST unconfigured))"
proof -
  have k: "falsy (OPENAI_API_KEY unconfigured)"
    by (simp add: unconfigured_def falsy_def)
  from POST_without_credential [OF k] k show ?thesis
    by (simp add: unconfigured_def)
qed

lemma foldl_addMealItem:
  "foldl addMealItem acc its =
     \<lparr>kcal = foldl add (kcal acc) (map (\<lambda>i. orZero (kcal i)) its),
      protein = foldl add (protein acc) (map (\<lambda>i. orZero (protein i)) its),
      carbs = foldl add (carbs acc) (map (\<lambda>i. orZero (carbs i)) its),
      fat = foldl add (fat acc) (map (\<lambda>i. orZero (fat i)) its)\<rparr>"
proof (induction its arbitrary: acc)
  case Nil
  show ?case by simp
next
  case (Cons i its)
  have step: "kcal (addMealItem acc i) = add (kcal acc) (orZero (kcal i))"
    "protein (addMealItem acc i) = add (protein acc) (orZero (protein i))"
    "carbs (addMealItem acc i) = add (carbs acc) (orZero (carbs i))"
    "fat (addMealItem acc i) = add (fat acc) (orZero (fat i))"
    by (simp_all add: addMealItem_def)
  show ?case by (simp add: Cons.IH step)
qed

lemma computeTotals_clientSum: "computeTotals its = clientSum its"
  by (simp add: computeTotals_def clientSum_def sumOver_def foldl_addMealItem zeroMacros_def)

lemma attempt_Ok:
  "fetch env (request env s) = Ok (Inr data) \<Longrightarrow> attempt env s = Inr (makeEntry env s data)"
  by (simp add: attempt_def)

lemma attempt_failed:
  "\<forall>data. fetch env (request env s) \<noteq> Ok (Inr data) \<Longrightarrow> \<exists>msg. attempt env s = Inl msg"
  by (auto simp: attempt_def split: fetch_result.splits sum.splits)

lemma handleSubmit_success:
  assumes "\<not> (message s = [] \<and> falsy (imagePreview s))"
    and "attempt env s = Inr entry"
  shows "fst (handleSubmit env s) =
     s\<lparr>error := None,
       historyByDate := (historyByDate s)(selectedDate s \<mapsto> todaysEntries s @ [entry]),
       chat := chat s @ [(User, if message s = [] then ''(photo only)'' else message s),
                         (Assistant, renderAssistantSummary env entry)],
       isSending := False, message := [], imagePreview := None\<rparr>"
  using assms by (auto simp: handleSubmit_def pending_def todaysEntries_def)

lemma handleSubmit_failure:
  assumes "\<not> (message s = [] \<and> falsy (imagePreview s))"
    and "attempt env s = Inl msg"
  shows "fst (handleSubmit env s) =
     s\<lparr>error := Some msg,
       chat := chat s @ [(User, if message s = [] then ''(photo only)'' else message s),
                         (Assistant, msg)],
       isSending := False, message := [], imagePreview := None\<rparr>"
  using assms by (auto simp: handleSubmit_def pending_def)

lemma handleSubmit_invalid:
  assumes "message s = [] \<and> falsy (imagePreview s)"
  shows "handleSubmit env s =
     (s\<lparr>error := Some ''Add a photo or describe your meal first.''\<rparr>, [])"
  using assms by (simp add: handleSubmit_def)

text \<open>
  Claim C3, as the code has it. After a submission that the gateway answers
  successfully, the entry added last to the selected day carries as macros the total of
  the answer exactly as it arrived whenever the answer has one, well-formed or not: the
  code tests the total for absence only. When the total is absent the macros are the
  field-by-field sum over the items of the answer, added up in their order, absent or
  \<open>NaN\<close> fields counting as 0; with no total and no items the macros are all zero.
\<close>

theorem stored_macros_from_total_or_items:
  assumes "\<not> (message s = [] \<and> falsy (imagePreview s))"
    and "fetch env (request env s) = Ok (Inr data)"
  shows "\<exists>entry. todaysEntries (fst (handleSubmit env s)) = todaysEntries s @ [entry]
     \<and> (\<forall>t. r_total data = Some t \<longrightarrow> macros entry = t)
     \<and> (r_total data = None \<longrightarrow>
          macros entry
            = asFields (clientSum (case r_items data of None \<Rightarrow> [] | Some its \<Rightarrow> its)))
     \<and> (r_total data = None \<and> (r_items data = None \<or> r_items data = Some []) \<longrightarrow>
          macros entry = \<lparr>kcal = Num (Fin 0), protein = Num (Fin 0), carbs = Num (Fin 0),
                           fat = Num (Fin 0)\<rparr>)"
proof -
  let ?entry = "makeEntry env s data"
  from assms(2) have a: "attempt env s = Inr ?entry" by (rule attempt_Ok)
  have 1: "todaysEntries (fst (handleSubmit env s)) = todaysEntries s @ [?entry]"
    unfolding handleSubmit_success [OF assms(1) a] by (simp add: todaysEntries_def)
  have 2: "\<forall>t. r_total data = Some t \<longrightarrow> macros ?entry = t"
    by (simp add: makeEntry_def)
  have 3: "r_total data = None \<longrightarrow>
      macros ?entry
        = asFields (clientSum (case r_items data of None \<Rightarrow> [] | Some its \<Rightarrow> its))"
    by (simp add: makeEntry_def computeTotals_clientSum)
  have 4: "r_total data = None \<and> (r_items data = None \<or> r_items data = Some []) \<longrightarrow>
      macros ?entry = \<lparr>kcal = Num (Fin 0), protein = Num (Fin 0), carbs = Num (Fin 0),
                        fat = Num (Fin 0)\<rparr>"
    by (auto simp: makeEntry_def computeTotals_def zeroMacros_def asFields_def)
  show ?thesis
  proof (intro exI conjI)
    show "todaysEntries (fst (handleSubmit env s)) = todaysEntries s @ [?entry]" by (rule 1)
    show "\<forall>t. r_total data = Some t \<longrightarrow> macros ?entry = t" by (rule 2)
    show "r_total data = None \<longrightarrow>
      macros ?entry
        = asFields (clientSum (case r_items data of None \<Rightarrow> [] | Some its \<Rightarrow> its))"
      by (rule 3)
    show "r_total data = None \<and> (r_items data = None \<or> r_items data = Some []) \<longrightarrow>
      macros ?entry = \<lparr>kcal = Num (Fin 0), protein = Num (Fin 0), carbs = Num (Fin 0),
                        fat = Num (Fin 0)\<rparr>"
      by (rule 4)
  qed
qed

theorem stored_macros_from_total_or_items_witness:
  "macros (last (todaysEntries (fst (handleSubmit (clientEnv (Ok (Inr withTotal))) oneDinner))))
     = \<lparr>kcal = Num (Fin 100), protein = Num (Fin 1), carbs = Num (Fin 26), fat = Num (Fin 1)\<rparr>
   \<and> macros (last (todaysEntries
         (fst (handleSubmit (clientEnv (Ok (Inr withoutTotal))) oneDinner))))
     = \<lparr>kcal = Num (Fin 0), protein = Num (Fin 0), carbs = Num (Fin 0), fat = Num (Fin 0)\<rparr>"
proof -
  have v: "\<not> (message oneDinner = [] \<and> falsy (imagePreview oneDinner))"
    by (simp add: oneDinner_def)
  have f: "fetch (clientEnv (Ok (Inr d))) (request (clientEnv (Ok (Inr d))) oneDinner)
      = Ok (Inr d)" for d
    by (simp add: clientEnv_def)
  from stored_macros_from_total_or_items [OF v f, of withTotal]
  obtain e1 where e1:
    "todaysEntries (fst (handleSubmit (clientEnv (Ok (Inr withTotal))) oneDinner))
       = todaysEntries oneDinner @ [e1]"
    "\<forall>t. r_total withTotal = Some t \<longrightarrow> macros e1 = t"
    by blast
  have "r_total withTotal
      = Some \<lparr>kcal = Num (Fin 100), protein = Num (Fin 1), carbs = Num (Fin 26),
              fat = Num (Fin 1)\<rparr>"
    by (simp add: withTotal_def)
  with e1(2) have m1: "macros e1
      = \<lparr>kcal = Num (Fin 100), protein = Num (Fin 1), carbs = Num (Fin 26), fat = Num (Fin 1)\<rparr>"
    by blast
  from stored_macros_from_total_or_items [OF v f, of withoutTotal]
  obtain e2 where e2:
    "todaysEntries (fst (handleSubmit (clientEnv (Ok (Inr withoutTotal))) oneDinner))
       = todaysEntries oneDinner @ [e2]"
    "r_total withoutTotal = None \<and> (r_items withoutTotal = None \<or> r_items withoutTotal = Some [])
       \<longrightarrow> macros e2 = \<lparr>kcal = Num (Fin 0), protein = Num (Fin 0), carbs = Num (Fin 0),
                           fat = Num (Fin 0)\<rparr>"
    by blast
  have "r_total withoutTotal = None \<and> r_items withoutTotal = Some []"
    by (simp add: withoutTotal_def)
  with e2(2) have m2: "macros e2
      = \<lparr>kcal = Num (Fin 0), protein = Num (Fin 0), carbs = Num (Fin 0), fat = Num (Fin 0)\<rparr>"
    by blast
  show ?thesis by (simp only: e1(1) e2(1) last_snoc m1 m2 simp_thms)
qed

lemma withNullTotal_stored:
  "macros (last (todaysEntries (fst (handleSubmit (clientEnv (Ok (Inr withNullTotal))) oneDinner))))
     = \<lparr>kcal = Null, protein = Num (Fin 0), carbs = Num (Fin 25), fat = Num (Fin 0)\<rparr>"
proof -
  let ?env = "clientEnv (Ok (Inr withNullTotal))"
  have v: "\<not> (message oneDinner = [] \<and> falsy (imagePreview oneDinner))"
    by (simp add: oneDinner_def)
  have a: "attempt ?env oneDinner = Inr (makeEntry ?env oneDinner withNullTotal)"
    by (rule attempt_Ok) (simp add: clientEnv_def)
  show ?thesis
    unfolding handleSubmit_success [OF v a]
    by (simp add: todaysEntries_def makeEntry_def withNullTotal_def)
qed

theorem malformed_total_stored_counterexample:
  "\<not> wellFormed \<lparr>kcal = Null, protein = Num (Fin 0), carbs = Num (Fin 25), fat = Num (Fin 0)\<rparr>
   \<and> r_items withNullTotal = Some [apple]
   \<and> asFields (clientSum [apple])
       = \<lparr>kcal = Num (Fin 95), protein = Num (Fin 0), carbs = Num (Fin 25), fat = Num (Fin 0)\<rparr>
   \<and> macros (last (todaysEntries
         (fst (handleSubmit (clientEnv (Ok (Inr withNullTotal))) oneDinner))))
       = \<lparr>kcal = Null, protein = Num (Fin 0), carbs = Num (Fin 25), fat = Num (Fin 0)\<rparr>"
  by (simp add: withNullTotal_stored)
    (simp add: wellFormed_def wellFormedField_def withNullTotal_def asFields_def
      clientSum_def sumOver_def apple_def orZero_def)

text \<open>
  Claim C4, as the code has it. A submission without input stops at the guard: the log
  and the transcript stay as they are, no request is sent, and only the error state
  shows the message. A submission whose request fails (the network rejects, the gateway
  answers with an error, or the body of its answer cannot be read) leaves the log as it
  is, shows the message of the failure as the error state, and extends the transcript by
  the user's message, recorded while the request is pending, followed by the message of
  the failure.
\<close>

theorem failed_submit_leaves_log:
  "(message s = [] \<and> falsy (imagePreview s) \<longrightarrow>
      historyByDate (fst (handleSubmit env s)) = historyByDate s
      \<and> error (fst (handleSubmit env s)) = Some ''Add a photo or describe your meal first.''
      \<and> chat (fst (handleSubmit env s)) = chat s
      \<and> snd (handleSubmit env s) = [])
   \<and> (\<not> (message s = [] \<and> falsy (imagePreview s))
        \<and> (\<forall>data. fetch env (request env s) \<noteq> Ok (Inr data)) \<longrightarrow>
      (\<exists>msg. attempt env s = Inl msg
        \<and> historyByDate (fst (handleSubmit env s)) = historyByDate s
        \<and> error (fst (handleSubmit env s)) = Some msg
        \<and> chat (pending s)
            = chat s @ [(User, if message s = [] then ''(photo only)'' else message s)]
        \<and> chat (fst (handleSubmit env s)) = chat (pending s) @ [(Assistant, msg)]))"
proof (rule conjI; rule impI)
  assume "message s = [] \<and> falsy (imagePreview s)"
  then have "handleSubmit env s =
      (s\<lparr>error := Some ''Add a photo or describe your meal first.''\<rparr>, [])"
    by (rule handleSubmit_invalid)
  then show "historyByDate (fst (handleSubmit env s)) = historyByDate s
      \<and> error (fst (handleSubmit env s)) = Some ''Add a photo or describe your meal first.''
      \<and> chat (fst (handleSubmit env s)) = chat s
      \<and> snd (handleSubmit env s) = []"
    by simp
next
  assume a: "\<not> (message s = [] \<and> falsy (imagePreview s))
        \<and> (\<forall>data. fetch env (request env s) \<noteq> Ok (Inr data))"
  then obtain msg where m: "attempt env s = Inl msg"
    using attempt_failed by blast
  from a have v: "\<not> (message s = [] \<and> falsy (imagePreview s))" by simp
  note h = handleSubmit_failure [OF v m]
  show "\<exists>msg. attempt env s = Inl msg
        \<and> historyByDate (fst (handleSubmit env s)) = historyByDate s
        \<and> error (fst (handleSubmit env s)) = Some msg
        \<and> chat (pending s)
            = chat s @ [(User, if message s = [] then ''(photo only)'' else message s)]
        \<and> chat (fst (handleSubmit env s)) = chat (pending s) @ [(Assistant, msg)]"
  proof (intro exI conjI)
    show "attempt env s = Inl msg" by (rule m)
    show "historyByDate (fst (handleSubmit env s)) = historyByDate s"
      unfolding h by simp
    show "error (fst (handleSubmit env s)) = Some msg"
      unfolding h by simp
    show "chat (pending s)
            = chat s @ [(User, if message s = [] then ''(photo only)'' else message s)]"
      by (simp add: pending_def)
    show "chat (fst (handleSubmit env s)) = chat (pending s) @ [(Assistant, msg)]"
      unfolding h by (simp add: pending_def)
  qed
qed

theorem failed_submit_leaves_log_witness:
  "historyByDate (fst (handleSubmit (clientEnv gatewayDown) twoDays)) = historyByDate twoDays
   \<and> error (fst (handleSubmit (clientEnv gatewayDown) twoDays))
       = Some ''Unable to analyze meal right now.''
   \<and> chat (fst (handleSubmit (clientEnv gatewayDown) twoDays))
       = [(Assistant, initialAssistantMessage), (User, ''(photo only)''),
          (Assistant, ''Unable to analyze meal right now.'')]
   \<and> historyByDate (fst (handleSubmit (clientEnv gatewayDown) emptyDraft))
       = historyByDate emptyDraft
   \<and> snd (handleSubmit (clientEnv gatewayDown) emptyDraft) = []"
proof -
  let ?env = "clientEnv gatewayDown"
  have g: "message emptyDraft = [] \<and> falsy (imagePreview emptyDraft)"
    by (simp add: emptyDraft_def oneDinner_def falsy_def)
  have v: "\<not> (message twoDays = [] \<and> falsy (imagePreview twoDays))
      \<and> (\<forall>data. fetch ?env (request ?env twoDays) \<noteq> Ok (Inr data))"
    by (simp add: twoDays_def falsy_def clientEnv_def gatewayDown_def)
  have m: "attempt ?env twoDays = Inl ''Unable to analyze meal right now.''"
    by (simp add: attempt_def clientEnv_def gatewayDown_def)
  from failed_submit_leaves_log [of emptyDraft ?env] g
  have 1: "historyByDate (fst (handleSubmit ?env emptyDraft)) = historyByDate emptyDraft
      \<and> snd (handleSubmit ?env emptyDraft) = []"
    by simp
  from failed_submit_leaves_log [of twoDays ?env] v
  obtain msg where 2: "attempt ?env twoDays = Inl msg"
      "historyByDate (fst (handleSubmit ?env twoDays)) = historyByDate twoDays"
      "error (fst (handleSubmit ?env twoDays)) = Some msg"
      "chat (pending twoDays)
         = chat twoDays @ [(User, if message twoDays = [] then ''(photo only)''
                                  else message twoDays)]"
      "chat (fst (handleSubmit ?env twoDays)) = chat (pending twoDays) @ [(Assistant, msg)]"
    by blast
  from 2(1) m have msg: "msg = ''Unable to analyze meal right now.''" by simp
  have c: "chat twoDays = [(Assistant, initialAssistantMessage)]" "message twoDays = []"
    by (simp_all add: twoDays_def)
  show ?thesis
    using 1 2(2) 2(3) by (simp add: 2(5) 2(4) msg c)
qed

theorem validation_failure_not_in_chat_counterexample:
  "message emptyDraft = [] \<and> imagePreview emptyDraft = None
   \<and> error (fst (handleSubmit (clientEnv gatewayDown) emptyDraft))
       = Some ''Add a photo or describe your meal first.''
   \<and> chat (fst (handleSubmit (clientEnv gatewayDown) emptyDraft))
       = [(Assistant, initialAssistantMessage)]
   \<and> chat (fst (handleSubmit (clientEnv gatewayDown) emptyDraft)) = chat emptyDraft"
  by (simp add: handleSubmit_def emptyDraft_def oneDinner_def falsy_def)

text \<open>
  Claim C6. With an empty description and no image (absent or empty) the submission
  fails at the guard with the message that asks for input as the error state, nothing
  else of the state changes, and no request is sent to the gateway.
\<close>

theorem submit_without_input:
  "message s = [] \<and> falsy (imagePreview s) \<Longrightarrow>
     fst (handleSubmit env s) = s\<lparr>error := Some ''Add a photo or describe your meal first.''\<rparr>
     \<and> snd (handleSubmit env s) = []"
  by (simp add: handleSubmit_def)

theorem submit_without_input_witness:
  "message emptyDraft = [] \<and> falsy (imagePreview emptyDraft)
   \<and> error (fst (handleSubmit (clientEnv (Ok (Inr withTotal))) emptyDraft))
       = Some ''Add a photo or describe your meal first.''
   \<and> historyByDate (fst (handleSubmit (clientEnv (Ok (Inr withTotal))) emptyDraft))
       = historyByDate emptyDraft
   \<and> snd (handleSubmit (clientEnv (Ok (Inr withTotal))) emptyDraft) = []"
proof -
  have g: "message emptyDraft = [] \<and> falsy (imagePreview emptyDraft)"
    by (simp add: emptyDraft_def oneDinner_def falsy_def)
  from submit_without_input [OF g, of "clientEnv (Ok (Inr withTotal))"] g
  show ?thesis by simp
qed

text \<open>
  Claim C8. The meal label is a function of the hour of the day alone, with half-open
  boundaries at 11, 15 and 18: Breakfast before 11, Lunch from 11 to before 15, Snack
  from 15 to before 18, Dinner from 18 on; so 9 gives Breakfast, 13 Lunch, 17 Snack and
  20 Dinner. The label sent to the gateway is the one of the hour read when the request
  is built.
\<close>

theorem guessMealLabel_boundaries:
  "(hour < 11 \<longrightarrow> guessMealLabel hour = ''Breakfast'')
   \<and> (11 \<le> hour \<and> hour < 15 \<longrightarrow> guessMealLabel hour = ''Lunch'')
   \<and> (15 \<le> hour \<and> hour < 18 \<longrightarrow> guessMealLabel hour = ''Snack'')
   \<and> (18 \<le> hour \<longrightarrow> guessMealLabel hour = ''Dinner'')
   \<and> guessMealLabel 9 = ''Breakfast'' \<and> guessMealLabel 13 = ''Lunch''
   \<and> guessMealLabel 17 = ''Snack'' \<and> guessMealLabel 20 = ''Dinner''
   \<and> q_mealLabel (request env s) = guessMealLabel (hourSent env)"
  by (simp add: guessMealLabel_def request_def)

theorem guessMealLabel_boundaries_witness:
  "guessMealLabel 0 = ''Breakfast'' \<and> guessMealLabel 10 = ''Breakfast''
   \<and> guessMealLabel 11 = ''Lunch'' \<and> guessMealLabel 14 = ''Lunch''
   \<and> guessMealLabel 15 = ''Snack'' \<and> guessMealLabel 17 = ''Snack''
   \<and> guessMealLabel 18 = ''Dinner'' \<and> guessMealLabel 23 = ''Dinner''"
proof -
  note b = guessMealLabel_boundaries [where env = "clientEnv gatewayDown" and s = oneDinner]
  from b [of 0] b [of 10] b [of 11] b [of 14] b [of 15] b [of 17] b [of 18] b [of 23]
  show ?thesis by simp
qed

text \<open>
  Claim C9. After a submission that the gateway answers successfully, the selected date
  holds the entries it held before, in their order, followed by the new entry; every
  other date holds what it held before; and the selected date is the same.
\<close>

theorem successful_submit_appends:
  assumes "\<not> (message s = [] \<and> falsy (imagePreview s))"
    and "fetch env (request env s) = Ok (Inr data)"
  shows "historyByDate (fst (handleSubmit env s)) (selectedDate s)
           = Some (todaysEntries s @ [makeEntry env s data])
       \<and> (\<forall>d. d \<noteq> selectedDate s \<longrightarrow>
             historyByDate (fst (handleSubmit env s)) d = historyByDate s d)
       \<and> selectedDate (fst (handleSubmit env s)) = selectedDate s"
proof -
  from assms(2) have a: "attempt env s = Inr (makeEntry env s data)" by (rule attempt_Ok)
  show ?thesis
    unfolding handleSubmit_success [OF assms(1) a] by simp
qed

theorem successful_submit_appends_witness:
  "historyByDate (fst (handleSubmit (clientEnv (Ok (Inr withTotal))) twoDays)) ''2024-05-01''
     = Some [dinnerEntry, makeEntry (clientEnv (Ok (Inr withTotal))) twoDays withTotal]
   \<and> historyByDate (fst (handleSubmit (clientEnv (Ok (Inr withTotal))) twoDays)) ''2024-04-30''
     = Some [dinnerEntry, dinnerEntry]
   \<and> historyByDate (fst (handleSubmit (clientEnv (Ok (Inr withTotal))) twoDays)) ''2024-05-02''
     = None"
proof -
  let ?env = "clientEnv (Ok (Inr withTotal))"
  have v: "\<not> (message twoDays = [] \<and> falsy (imagePreview twoDays))"
    by (simp add: twoDays_def falsy_def)
  have f: "fetch ?env (request ?env twoDays) = Ok (Inr withTotal)"
    by (simp add: clientEnv_def)
  note t = successful_submit_appends [OF v f]
  have d: "selectedDate twoDays = ''2024-05-01''" "todaysEntries twoDays = [dinnerEntry]"
    "historyByDate twoDays ''2024-04-30'' = Some [dinnerEntry, dinnerEntry]"
    "historyByDate twoDays ''2024-05-02'' = None"
    by (simp_all add: twoDays_def todaysEntries_def)
  from t have 1: "historyByDate (fst (handleSubmit ?env twoDays)) ''2024-05-01''
     = Some [dinnerEntry, makeEntry ?env twoDays withTotal]"
    by (simp add: d)
  from t have o: "d \<noteq> ''2024-05-01'' \<Longrightarrow>
      historyByDate (fst (handleSubmit ?env twoDays)) d = historyByDate twoDays d" for d
    by (simp add: d)
  have 2: "historyByDate (fst (handleSubmit ?env twoDays)) ''2024-04-30''
     = Some [dinnerEntry, dinnerEntry]"
    using o [of "''2024-04-30''"] by (simp add: d)
  have 3: "historyByDate (fst (handleSubmit ?env twoDays)) ''2024-05-02'' = None"
    using o [of "''2024-05-02''"] by (simp add: d)
  from 1 2 3 show ?thesis by simp
qed

text \<open>
  Claim C10. After a submission the draft is empty: the description is the empty string
  and the image preview is falsy, whether the gateway answered, the request failed, or
  the submission stopped at the guard for lack of input (where the draft was empty
  already and is left as it was). The preview state is \<^verbatim>\<open>null\<close> or the data URL that
  the file reader produced, never the empty string, and then the preview is
  \<^verbatim>\<open>null\<close> after the submission. In particular a submission whose request failed has
  lost the description and the image that were typed and chosen.
\<close>

theorem submit_clears_draft:
  "message (fst (handleSubmit env s)) = []
   \<and> falsy (imagePreview (fst (handleSubmit env s)))
   \<and> (imagePreview s \<noteq> Some [] \<longrightarrow> imagePreview (fst (handleSubmit env s)) = None)
   \<and> (\<not> (message s = [] \<and> falsy (imagePreview s)) \<longrightarrow>
        imagePreview (fst (handleSubmit env s)) = None)"
proof (cases "message s = [] \<and> falsy (imagePreview s)")
  case True
  then show ?thesis
    by (auto simp: handleSubmit_invalid falsy_def)
next
  case False
  show ?thesis
  proof (cases "attempt env s")
    case (Inl msg)
    show ?thesis unfolding handleSubmit_failure [OF False Inl] by (simp add: falsy_def)
  next
    case (Inr entry)
    show ?thesis unfolding handleSubmit_success [OF False Inr] by (simp add: falsy_def)
  qed
qed

theorem submit_clears_draft_witness:
  "message (fst (handleSubmit (clientEnv gatewayDown) twoDays)) = []
   \<and> imagePreview (fst (handleSubmit (clientEnv gatewayDown) twoDays)) = None
   \<and> message (fst (handleSubmit (clientEnv (Ok (Inr withTotal))) oneDinner)) = []
   \<and> imagePreview (fst (handleSubmit (clientEnv (Ok (Inr withTotal))) oneDinner)) = None
   \<and> message (fst (handleSubmit (clientEnv gatewayDown) emptyDraft)) = []
   \<and> imagePreview (fst (handleSubmit (clientEnv gatewayDown) emptyDraft)) = None"
proof -
  have p: "imagePreview twoDays \<noteq> Some []" "imagePreview oneDinner \<noteq> Some []"
    "imagePreview emptyDraft \<noteq> Some []"
    by (simp_all add: twoDays_def oneDinner_def emptyDraft_def)
  from submit_clears_draft [of "clientEnv gatewayDown" twoDays]
    submit_clears_draft [of "clientEnv (Ok (Inr withTotal))" oneDinner]
    submit_clears_draft [of "clientEnv gatewayDown" emptyDraft] p
  show ?thesis by simp
qed

end
